theory Spec2Isabelle
  imports Main
begin

section \<open>Extraction job orchestrator (backend/modules/project_manager.py)\<close>

text \<open>
  The module keeps three process-wide dictionaries (\<open>message_queues\<close>,
  \<open>active_extractions\<close>, \<open>extraction_stats\<close>), a thread pool and a MongoDB
  collection of projects. They are modelled as the fields of one record that every
  function takes and returns. \<open>extraction_stats\<close> is written at submission and deleted
  by the worker; nothing else reads it, and it is left out.
\<close>

type_synonym url = string
type_synonym client_id = string
type_synonym project_id = string
type_synonym time = nat

subsection \<open>Values\<close>

text \<open>
  \<open>search_keywords\<close> is annotated \<open>list\<close>: its items are arbitrary Python values. Only the
  distinction between \<open>str\<close> and anything else matters to the code (\<open>', '.join\<close> and
  \<open>keyword.lower()\<close> raise on a non-string item).
\<close>

datatype pyval = PyStr string | PyInt int

text \<open>
  An f-string is kept as its template and the values interpolated, in order; \<open>Ratio a b\<close> is the
  quotient \<open>a / b\<close> that a template prints with \<open>:.1f\<close>.
\<close>

datatype fstring = Str string | Num int | Strs "string list" | Ratio nat nat | Fmt string "fstring list"

text \<open>Status constants \<open>STATUS_RUNNING\<close>, ... of the module.\<close>

datatype status = STATUS_RUNNING | STATUS_INTERRUPTED | STATUS_COMPLETED | STATUS_ERROR

definition is_terminal :: "status \<Rightarrow> bool" where
  "is_terminal st = (st = STATUS_COMPLETED \<or> st = STATUS_ERROR \<or> st = STATUS_INTERRUPTED)"

text \<open>Meta information gathered by the keyword check; a missing key is \<open>None\<close>.\<close>

record meta_info =
  mi_title :: "string option"
  mi_description :: "string option"
  mi_keywords :: "string option"
  mi_og :: "(string \<times> string) list option"

definition empty_meta :: meta_info where
  "empty_meta = \<lparr>mi_title = None, mi_description = None, mi_keywords = None, mi_og = None\<rparr>"

text \<open>Truth value of the dictionary: it has at least one key.\<close>

definition meta_truthy :: "meta_info \<Rightarrow> bool" where
  "meta_truthy m = (mi_title m \<noteq> None \<or> mi_description m \<noteq> None \<or> mi_keywords m \<noteq> None \<or> mi_og m \<noteq> None)"

subsection \<open>The processing_status dictionary\<close>

text \<open>
  Keys that the dictionary gets only on some paths are optional fields. The fields whose
  names the worker also uses for local variables carry the prefix \<open>ps_\<close>.
\<close>

record pstatus =
  robots_status :: string
  sitemap_status :: string
  pages_found :: nat
  pages_scraped :: nat
  errors :: "fstring list"
  extraction_status :: status
  start_time :: time
  end_time :: "time option"
  scrape_mode :: string
  pages_limit :: int
  search_keywords :: "pyval list"
  include_meta :: bool
  ps_keyword_matches :: "(url \<times> string list) list option"
  ps_keyword_contexts :: "(url \<times> (string \<times> string) list) list option"
  ps_pages_with_keywords :: "nat option"
  ps_pages_checked :: "nat option"
  keyword_search_performed :: "bool option"
  keyword_search_results :: "string option"

text \<open>The dictionary literal of lines 75-89 and 364-377 (the first has \<open>keyword_matches: {}\<close>).\<close>

definition initial_status :: "time \<Rightarrow> string \<Rightarrow> int \<Rightarrow> pyval list \<Rightarrow> bool \<Rightarrow> (url \<times> string list) list option \<Rightarrow> pstatus" where
  "initial_status now mode limit kws im km =
     \<lparr>robots_status = ''not_processed'', sitemap_status = ''not_processed'',
      pages_found = 0, pages_scraped = 0, errors = [],
      extraction_status = STATUS_RUNNING, start_time = now, end_time = None,
      scrape_mode = mode, pages_limit = limit, search_keywords = kws, include_meta = im,
      ps_keyword_matches = km, ps_keyword_contexts = None,
      ps_pages_with_keywords = None, ps_pages_checked = None,
      keyword_search_performed = None, keyword_search_results = None\<rparr>"

subsection \<open>Messages, registry entries, stored projects\<close>

datatype log_type = Info | Success | Warning | Error | Detail | Completion

text \<open>
  The payload of a log message is its text; the payload of a completion message is the JSON
  object \<open>{project_id, processing_status: {pages_found, pages_scraped[, extraction_status]}}\<close>.
\<close>

datatype payload = Log fstring | Json project_id nat nat "status option"

record message =
  mtype :: log_type
  timestamp :: time
  body :: payload

record extraction =
  ex_project_id :: project_id
  status :: status
  interrupt_requested :: bool
  last_updated :: time

record project =
  user_email :: string
  proj_url :: url
  site_sitemap_pages :: "url list"
  site_scraped_pages :: "url list"
  stored_status :: pstatus
  created_at :: time

text \<open>The arguments of one \<open>thread_pool.submit(run_extraction_thread, ...)\<close>.\<close>

record job =
  job_url :: url
  job_project_id :: project_id
  job_client_id :: client_id
  job_user_email :: string
  job_scrape_mode :: string
  job_pages_limit :: int
  job_search_keywords :: "pyval list"
  job_include_meta :: bool

record scraped_data =
  sd_url :: url
  content_size_bytes :: nat
  duration_ms :: "nat option"
  speed_kbps :: nat
  text_count :: nat
  image_count :: nat
  sd_meta_info :: "meta_info option"

text \<open>Network requests the process performs, in order.\<close>

datatype request = RobotsReq url | SitemapReq url | KeywordGet url | ScrapeReq url

datatype ws_event = ProjectCreated project_id url

record system =
  active_extractions :: "client_id \<rightharpoonup> extraction"
  message_queues :: "client_id \<rightharpoonup> message list"
  projects :: "project_id \<rightharpoonup> project"
  user_projects :: "string \<Rightarrow> project_id list"
  pages_db :: "scraped_data list"
  thread_pool :: "job list"
  consumers :: "client_id list"
  ws_sent :: "(client_id \<times> ws_event) list"
  requests :: "request list"
  clock :: time
  checks :: nat

text \<open>
  \<open>clock\<close> is the value the next \<open>datetime.utcnow()\<close> returns; every reading advances
  it. \<open>checks\<close> counts the calls of \<open>should_interrupt\<close> so far; it places the control
  plane's interrupt request among the worker's steps (see \<open>poll_interrupt\<close>).
\<close>

subsection \<open>The facade: add_project_with_scraping\<close>

datatype http_exception = HTTPException nat fstring

record response =
  resp_message :: string
  resp_project_id :: project_id
  resp_client_id :: client_id
  resp_processing_status :: pstatus

text \<open>Lines 64-66.\<close>

definition validate_scrape_mode :: "string \<Rightarrow> string" where
  "validate_scrape_mode mode = (if mode \<noteq> ''all'' \<and> mode \<noteq> ''limited'' then ''limited'' else mode)"

text \<open>Lines 68-72, on the mode already validated.\<close>

definition validate_pages_limit :: "string \<Rightarrow> int \<Rightarrow> int" where
  "validate_pages_limit mode limit =
     (if limit < 1 then 5
      else if mode = ''limited'' \<and> limit > 100 then 100
      else limit)"

text \<open>
  \<open>new_id\<close> is the identifier \<open>insert_one\<close> returns and \<open>db_ok\<close> says whether the
  database answers; a database failure raises inside the \<open>try\<close>. Every exception raised
  inside the \<open>try\<close>, the \<open>HTTPException(400)\<close> for an empty URL included, is caught by
  \<open>except Exception\<close> and raised again with status 500. \<open>ws_manager\<close> is \<open>True\<close> when a
  connection manager was passed. \<open>search_keywords = None\<close> is the empty list: the code
  only tests its truth value and uses \<open>search_keywords or []\<close>.
\<close>

definition add_project_with_scraping ::
  "bool \<Rightarrow> project_id \<Rightarrow> string \<Rightarrow> url \<Rightarrow> bool \<Rightarrow> string \<Rightarrow> int \<Rightarrow> client_id option \<Rightarrow> pyval list \<Rightarrow> bool
     \<Rightarrow> 'a system_scheme \<Rightarrow> (http_exception + response) \<times> 'a system_scheme" where
  "add_project_with_scraping db_ok new_id email u ws_manager mode0 limit0 cid0 kws im s =
     (if u = [] then
        (Inl (HTTPException 500 (Fmt ''Internal server error: {}'' [Fmt ''{}: {}'' [Num 400, Str ''URL is required'']])), s)
      else
        let mode = validate_scrape_mode mode0;
            limit = validate_pages_limit mode limit0;
            processing_status = initial_status (clock s) mode limit kws im (Some []);
            project_data = \<lparr>user_email = email, proj_url = u, site_sitemap_pages = [u],
                            site_scraped_pages = [], stored_status = processing_status,
                            created_at = Suc (clock s)\<rparr>
        in if \<not> db_ok then
             (Inl (HTTPException 500 (Fmt ''Internal server error: {}'' [Str ''database unavailable''])),
              s\<lparr>clock := Suc (Suc (clock s))\<rparr>)
           else
             let cid = (case cid0 of None \<Rightarrow> ''project_'' @ new_id
                        | Some c \<Rightarrow> if c = [] then ''project_'' @ new_id else c);
                 s1 = s\<lparr>projects := (projects s)(new_id \<mapsto> project_data),
                        user_projects := (user_projects s)(email := user_projects s email @ [new_id]),
                        active_extractions := (active_extractions s)(cid \<mapsto>
                           \<lparr>ex_project_id = new_id, status = STATUS_RUNNING,
                            interrupt_requested = False, last_updated = Suc (Suc (clock s))\<rparr>),
                        clock := Suc (Suc (Suc (clock s)))\<rparr>;
                 s2 = (if ws_manager then
                         s1\<lparr>message_queues := (message_queues s1)(cid \<mapsto> []),
                            consumers := consumers s1 @ [cid],
                            ws_sent := ws_sent s1 @ [(cid, ProjectCreated new_id u)],
                            thread_pool := thread_pool s1 @
                              [\<lparr>job_url = u, job_project_id = new_id, job_client_id = cid,
                                job_user_email = email, job_scrape_mode = mode,
                                job_pages_limit = limit, job_search_keywords = kws,
                                job_include_meta = im\<rparr>]\<rparr>
                       else s1)
             in (Inr \<lparr>resp_message = ''Project added successfully, extraction started in background'',
                      resp_project_id = new_id, resp_client_id = cid,
                      resp_processing_status = processing_status\<rparr>, s2))"

subsection \<open>The registry operations\<close>

text \<open>Lines 670-674.\<close>

definition should_interrupt :: "client_id \<Rightarrow> (client_id \<rightharpoonup> extraction) \<Rightarrow> bool" where
  "should_interrupt cid ae = (case ae cid of None \<Rightarrow> False | Some e \<Rightarrow> interrupt_requested e)"

text \<open>Lines 726-734; \<open>now\<close> is the reading of the clock.\<close>

definition interrupt_extraction :: "client_id \<Rightarrow> time \<Rightarrow> (client_id \<rightharpoonup> extraction) \<Rightarrow> bool \<times> (client_id \<rightharpoonup> extraction)" where
  "interrupt_extraction cid now ae =
     (case ae cid of
        None \<Rightarrow> (False, ae)
      | Some e \<Rightarrow> (True, ae(cid \<mapsto> e\<lparr>interrupt_requested := True, last_updated := now\<rparr>)))"

subsection \<open>Python list and string operations\<close>

text \<open>\<open>xs[:n]\<close>: a negative \<open>n\<close> counts from the end.\<close>

definition py_take :: "int \<Rightarrow> 'a list \<Rightarrow> 'a list" where
  "py_take n xs = (if 0 \<le> n then take (nat n) xs else take (length xs - nat (- n)) xs)"

text \<open>\<open>d[k] = v\<close> on a dictionary kept in insertion order.\<close>

fun dict_set :: "'k \<Rightarrow> 'v \<Rightarrow> ('k \<times> 'v) list \<Rightarrow> ('k \<times> 'v) list" where
  "dict_set k v [] = [(k, v)]"
| "dict_set k v (p # ps) = (if fst p = k then (k, v) # ps else p # dict_set k v ps)"

text \<open>\<open>str.lower()\<close>, on ASCII text.\<close>

definition lower_char :: "char \<Rightarrow> char" where
  "lower_char c = (let n = (of_char c :: nat) in if 65 \<le> n \<and> n \<le> 90 then char_of (n + 32) else c)"

definition lower :: "string \<Rightarrow> string" where
  "lower = map lower_char"

text \<open>\<open>s.find(sub)\<close>, with \<open>None\<close> for \<open>-1\<close>; \<open>sub in s\<close>.\<close>

fun py_find :: "string \<Rightarrow> string \<Rightarrow> nat option" where
  "py_find sub [] = (if sub = [] then Some 0 else None)"
| "py_find sub (c # cs) =
     (if take (length sub) (c # cs) = sub then Some 0 else map_option Suc (py_find sub cs))"

definition py_in :: "string \<Rightarrow> string \<Rightarrow> bool" where
  "py_in sub s = (py_find sub s \<noteq> None)"

fun py_join :: "string \<Rightarrow> string list \<Rightarrow> string" where
  "py_join sep [] = []"
| "py_join sep [x] = x"
| "py_join sep (x # y # ys) = x @ sep @ py_join sep (y # ys)"

text \<open>
  \<open>', '.join(search_keywords)\<close> raises \<open>TypeError\<close> at the first item that is not a
  string; otherwise the result is kept as the list of the strings joined.
\<close>

fun join_keywords_from :: "nat \<Rightarrow> pyval list \<Rightarrow> fstring + string list" where
  "join_keywords_from i [] = Inr []"
| "join_keywords_from i (PyInt n # ks) =
     Inl (Fmt ''sequence item {}: expected str instance, int found'' [Num (int i)])"
| "join_keywords_from i (PyStr k # ks) =
     (case join_keywords_from (Suc i) ks of Inl e \<Rightarrow> Inl e | Inr strs \<Rightarrow> Inr (k # strs))"

definition join_keywords :: "pyval list \<Rightarrow> fstring + string list" where
  "join_keywords ks = join_keywords_from 0 ks"

subsection \<open>The collaborators\<close>

text \<open>What \<open>BeautifulSoup\<close> finds in a fetched page.\<close>

record html_doc =
  doc_text :: string
  doc_title :: "string option"
  doc_description :: "string option"
  doc_keywords :: "string option"
  doc_og :: "(string \<times> string) list"

text \<open>
  The collaborators and the surroundings of one run. \<open>Inl e\<close> is an exception with
  message \<open>e\<close>. \<open>robots\<close> gives the truth value of \<open>robots._id\<close>, \<open>sitemap\<close> the
  \<open>page_urls\<close>, \<open>fetch_page\<close> the parsed answer to \<open>requests.get\<close>. \<open>db_up\<close> says
  whether the synchronous MongoDB client of \<open>update_project_partial_sync\<close> reaches the
  database. \<open>interrupt_at = Some k\<close>: the control plane calls \<open>interrupt_extraction\<close> for
  this job just before the worker's call number \<open>k\<close> of \<open>should_interrupt\<close> (from 0).
  \<open>consumer_exits\<close> places the end of the job's consumer task (\<open>consume_messages\<close>, which
  runs on the event loop while the worker runs in its thread) among the statements of
  \<open>handle_interruption\<close>: \<open>Some Before_warning\<close> when the consumer has sent every message
  queued and makes its test of lines 201-204 after line 683 and before the \<open>send_log\<close> of
  line 703, that is while the worker writes to the database (lines 696-700);
  \<open>Some Before_completion\<close> when it does so between line 703 and the \<open>put\<close> of line 710;
  \<open>None\<close> when it does neither before \<open>handle_interruption\<close> returns.
\<close>

datatype overtake = Before_warning | Before_completion

record env =
  robots :: "url \<Rightarrow> string + bool"
  sitemap :: "url \<Rightarrow> string + url list"
  fetch_page :: "url \<Rightarrow> string + html_doc"
  scrape_website :: "url \<Rightarrow> string + scraped_data"
  store_in_mongodb :: "scraped_data \<Rightarrow> string option"
  db_up :: bool
  interrupt_at :: "nat option"
  consumer_exits :: "overtake option"

subsection \<open>check_page_for_keywords (lines 222-317)\<close>

definition extract_meta :: "html_doc \<Rightarrow> meta_info" where
  "extract_meta d = \<lparr>mi_title = doc_title d, mi_description = doc_description d,
                      mi_keywords = doc_keywords d,
                      mi_og = (if doc_og d = [] then None else Some (doc_og d))\<rparr>"

definition get_or_empty :: "string option \<Rightarrow> string" where
  "get_or_empty x = (case x of None \<Rightarrow> [] | Some v \<Rightarrow> v)"

text \<open>One round of the loop of lines 273-285.\<close>

definition body_step :: "string \<Rightarrow> string list \<times> (string \<times> string) list \<Rightarrow> string
    \<Rightarrow> string list \<times> (string \<times> string) list" where
  "body_step text_content acc keyword =
     (case py_find (lower keyword) text_content of
        None \<Rightarrow> acc
      | Some start_index \<Rightarrow>
          let context_start = (if start_index < 50 then 0 else start_index - 50);
              context_end = min (length text_content) (start_index + length keyword + 50);
              context = take (context_end - context_start) (drop context_start text_content)
          in (fst acc @ [keyword], dict_set keyword (''...'' @ context @ ''...'') (snd acc)))"

text \<open>
  One round of the loop of lines 296-309. \<open>meta_info['title']\<close> is read only where the
  keyword occurs in the title, so the key is there (an empty keyword has matched the body
  text before and is skipped).
\<close>

definition meta_step :: "meta_info \<Rightarrow> string \<Rightarrow> string list \<times> (string \<times> string) list \<Rightarrow> string
    \<Rightarrow> string list \<times> (string \<times> string) list" where
  "meta_step mi meta_text acc keyword =
     (if py_in (lower keyword) meta_text \<and> keyword \<notin> set (fst acc) then
        (fst acc @ [keyword],
         dict_set keyword
           (if py_in (lower keyword) (lower (get_or_empty (mi_title mi)))
              then ''Found in title: '' @ get_or_empty (mi_title mi)
            else if py_in (lower keyword) (lower (get_or_empty (mi_description mi)))
              then ''Found in meta description: '' @ get_or_empty (mi_description mi)
            else if py_in (lower keyword) (lower (get_or_empty (mi_keywords mi)))
              then ''Found in meta keywords: '' @ get_or_empty (mi_keywords mi)
            else ''Found in meta information'')
           (snd acc))
      else acc)"

definition str_of :: "pyval \<Rightarrow> string option" where
  "str_of k = (case k of PyStr x \<Rightarrow> Some x | PyInt n \<Rightarrow> None)"

text \<open>
  The result is \<open>(contains_keywords, matching_keywords, meta_info, contexts)\<close>. Every
  exception is caught inside the function (line 314) and gives \<open>(False, [], {}, {})\<close>:
  a failed fetch, and \<open>keyword.lower()\<close> on an item that is not a string.
\<close>

definition check_page_for_keywords ::
  "env \<Rightarrow> url \<Rightarrow> pyval list \<Rightarrow> bool \<Rightarrow> bool \<times> string list \<times> meta_info \<times> (string \<times> string) list" where
  "check_page_for_keywords e u keywords im =
     (case fetch_page e u of
        Inl err \<Rightarrow> (False, [], empty_meta, [])
      | Inr d \<Rightarrow>
          if \<exists>k \<in> set keywords. str_of k = None then (False, [], empty_meta, [])
          else
            let kws = map (\<lambda>k. get_or_empty (str_of k)) keywords;
                text_content = lower (doc_text d);
                meta = (if im then extract_meta d else empty_meta);
                acc1 = foldl (body_step text_content) ([], []) kws;
                meta_text = lower (py_join '' ''
                   [get_or_empty (mi_title meta), get_or_empty (mi_description meta),
                    get_or_empty (mi_keywords meta),
                    py_join '' '' (map snd (case mi_og meta of None \<Rightarrow> [] | Some og \<Rightarrow> og))]);
                acc2 = (if im then foldl (meta_step meta meta_text) acc1 kws else acc1)
            in (fst acc2 \<noteq> [], fst acc2, meta, snd acc2))"

subsection \<open>The worker's state\<close>

text \<open>
  The local variables of \<open>run_extraction_thread\<close> extend the shared state.
  \<open>status_trace\<close> is a ghost field: the values \<open>processing_status\<close> has taken, in
  order, one for each group of adjacent assignments to the dictionary (no other statement
  lies between the assignments of a group, and the dictionary is local to the worker).
\<close>

record worker = system +
  processing_status :: pstatus
  status_trace :: "pstatus list"
  scraped_pages :: "url list"
  filtered_pages :: "url list"
  keyword_matches :: "(url \<times> string list) list"
  meta_info_extracted :: "(url \<times> meta_info) list"
  keyword_contexts :: "(url \<times> (string \<times> string) list) list"
  pages_with_keywords :: nat
  pages_checked :: nat

definition set_status :: "pstatus \<Rightarrow> worker \<Rightarrow> worker" where
  "set_status ps s = s\<lparr>processing_status := ps, status_trace := status_trace s @ [ps]\<rparr>"

text \<open>\<open>send_log\<close> (lines 319-338): without a queue for the client nothing is queued.\<close>

definition send_log :: "client_id \<Rightarrow> log_type \<Rightarrow> fstring \<Rightarrow> 'a system_scheme \<Rightarrow> 'a system_scheme" where
  "send_log cid lt msg s =
     (case message_queues s cid of
        None \<Rightarrow> s
      | Some q \<Rightarrow> s\<lparr>message_queues := (message_queues s)(cid \<mapsto>
                       q @ [\<lparr>mtype = lt, timestamp = clock s, body = Log msg\<rparr>]),
                    clock := Suc (clock s)\<rparr>)"

text \<open>The \<open>message_queues[client_id].put({"type": "completion", ...})\<close> of lines 624 and 709.\<close>

definition put_completion :: "client_id \<Rightarrow> payload \<Rightarrow> 'a system_scheme \<Rightarrow> 'a system_scheme" where
  "put_completion cid pl s =
     (case message_queues s cid of
        None \<Rightarrow> s
      | Some q \<Rightarrow> s\<lparr>message_queues := (message_queues s)(cid \<mapsto>
                       q @ [\<lparr>mtype = Completion, timestamp = clock s, body = pl\<rparr>]),
                    clock := Suc (clock s)\<rparr>)"

subsection \<open>update_project_partial_sync (lines 749-777)\<close>

text \<open>One key of the \<open>$set\<close> document, with its value.\<close>

datatype field_update =
    Set_processing_status pstatus
  | Set_scraped_pages "url list"
  | Set_pages_scraped nat
  | Set_extraction_status status
  | Set_end_time "time option"
  | Set_keyword_search_performed bool
  | Set_keyword_search_results string
  | Set_pages_checked nat
  | Set_search_keywords "pyval list"
  | Set_keyword_matches "(url \<times> string list) list"
  | Set_keyword_contexts "(url \<times> (string \<times> string) list) list"
  | Set_pages_with_keywords nat

fun apply_update :: "field_update \<Rightarrow> project \<Rightarrow> project" where
  "apply_update (Set_processing_status ps) p = p\<lparr>stored_status := ps\<rparr>"
| "apply_update (Set_scraped_pages xs) p = p\<lparr>site_scraped_pages := xs\<rparr>"
| "apply_update (Set_pages_scraped n) p = p\<lparr>stored_status := (stored_status p)\<lparr>pages_scraped := n\<rparr>\<rparr>"
| "apply_update (Set_extraction_status st) p = p\<lparr>stored_status := (stored_status p)\<lparr>extraction_status := st\<rparr>\<rparr>"
| "apply_update (Set_end_time t) p = p\<lparr>stored_status := (stored_status p)\<lparr>end_time := t\<rparr>\<rparr>"
| "apply_update (Set_keyword_search_performed b) p = p\<lparr>stored_status := (stored_status p)\<lparr>keyword_search_performed := Some b\<rparr>\<rparr>"
| "apply_update (Set_keyword_search_results r) p = p\<lparr>stored_status := (stored_status p)\<lparr>keyword_search_results := Some r\<rparr>\<rparr>"
| "apply_update (Set_pages_checked n) p = p\<lparr>stored_status := (stored_status p)\<lparr>ps_pages_checked := Some n\<rparr>\<rparr>"
| "apply_update (Set_search_keywords ks) p = p\<lparr>stored_status := (stored_status p)\<lparr>search_keywords := ks\<rparr>\<rparr>"
| "apply_update (Set_keyword_matches m) p = p\<lparr>stored_status := (stored_status p)\<lparr>ps_keyword_matches := Some m\<rparr>\<rparr>"
| "apply_update (Set_keyword_contexts c) p = p\<lparr>stored_status := (stored_status p)\<lparr>ps_keyword_contexts := Some c\<rparr>\<rparr>"
| "apply_update (Set_pages_with_keywords n) p = p\<lparr>stored_status := (stored_status p)\<lparr>ps_pages_with_keywords := Some n\<rparr>\<rparr>"

text \<open>
  Every exception is caught and printed: when the database is down, or holds no project of
  that identifier, nothing is written.
\<close>

definition update_project_partial_sync :: "env \<Rightarrow> project_id \<Rightarrow> field_update list \<Rightarrow> 'a system_scheme \<Rightarrow> 'a system_scheme" where
  "update_project_partial_sync e pid update_data s =
     (if db_up e then
        (case projects s pid of
           None \<Rightarrow> s
         | Some p \<Rightarrow> s\<lparr>projects := (projects s)(pid \<mapsto> foldl (\<lambda>p u. apply_update u p) p update_data)\<rparr>)
      else s)"

subsection \<open>Interruption\<close>

text \<open>
  The worker's call of \<open>should_interrupt\<close>, after the control plane's request when the
  surroundings place it here.
\<close>

definition poll_interrupt :: "env \<Rightarrow> client_id \<Rightarrow> 'a system_scheme \<Rightarrow> bool \<times> 'a system_scheme" where
  "poll_interrupt e cid s =
     (let s1 = (if interrupt_at e = Some (checks s)
                then s\<lparr>active_extractions := snd (interrupt_extraction cid (clock s) (active_extractions s)),
                       clock := Suc (clock s)\<rparr>
                else s);
          s2 = s1\<lparr>checks := Suc (checks s1)\<rparr>
      in (should_interrupt cid (active_extractions s2), s2))"

text \<open>
  The end of \<open>consume_messages\<close> (lines 196-210). The task takes messages from the queue
  and sends them; when it finds the queue empty and the job's entry absent or terminal, it
  deletes the queue and the entry and stops. The queues of this model keep every message
  queued, so the taking of messages does not show; whether the consumer has emptied the
  queue when it makes its test is for the surroundings to say.
\<close>

definition consumer_exit :: "client_id \<Rightarrow> 'a system_scheme \<Rightarrow> 'a system_scheme" where
  "consumer_exit cid s =
     (if cid \<in> set (consumers s)
         \<and> (case active_extractions s cid of None \<Rightarrow> True | Some en \<Rightarrow> is_terminal (status en))
      then s\<lparr>message_queues := (message_queues s)(cid := None),
              active_extractions := (active_extractions s)(cid := None)\<rparr>
      else s)"

definition consumer_step :: "env \<Rightarrow> overtake \<Rightarrow> client_id \<Rightarrow> 'a system_scheme \<Rightarrow> 'a system_scheme" where
  "consumer_step e p cid s = (if consumer_exits e = Some p then consumer_exit cid s else s)"

text \<open>
  \<open>handle_interruption\<close> (lines 676-724); the dictionary passed is the worker's own. The
  entry is marked terminal at line 683, before the write to the database and before the two
  messages are queued, so the consumer may delete the queue in between; a message for a
  queue that is gone is not queued (lines 321 and 709). The write touches the stored
  projects only, so the consumer's step during it is placed after it. The entry of a job
  becomes terminal here and at line 645 only, and the handler of line 637 queues nothing
  after line 645.
\<close>

definition handle_interruption :: "env \<Rightarrow> client_id \<Rightarrow> project_id \<Rightarrow> worker \<Rightarrow> worker" where
  "handle_interruption e cid pid s =
     (case active_extractions s cid of
        None \<Rightarrow> s
      | Some en \<Rightarrow>
          let s1 = s\<lparr>active_extractions := (active_extractions s)(cid \<mapsto>
                        en\<lparr>status := STATUS_INTERRUPTED, last_updated := clock s\<rparr>),
                     clock := Suc (clock s)\<rparr>;
              ps = (processing_status s1)\<lparr>extraction_status := STATUS_INTERRUPTED,
                                          end_time := Some (clock s1)\<rparr>;
              s2 = set_status ps (s1\<lparr>clock := Suc (clock s1)\<rparr>);
              s3 = consumer_step e Before_warning cid
                     (update_project_partial_sync e pid [Set_processing_status ps] s2);
              s4 = consumer_step e Before_completion cid
                     (send_log cid Warning (Fmt ''Extraction interrupted by user request'' []) s3)
          in put_completion cid
               (Json pid (pages_found ps) (pages_scraped ps) (Some STATUS_INTERRUPTED)) s4)"

datatype flow = Continue | Return

subsection \<open>Steps 1 and 2: robots.txt and sitemap (lines 386-425)\<close>

definition process_robots :: "env \<Rightarrow> client_id \<Rightarrow> url \<Rightarrow> worker \<Rightarrow> worker" where
  "process_robots e cid u s =
     (let s1 = send_log cid Info (Fmt ''Processing robots.txt for {}'' [Str u]) s;
          s2 = s1\<lparr>requests := requests s1 @ [RobotsReq u]\<rparr>;
          ps = processing_status s2
      in case robots e u of
           Inr True \<Rightarrow>
             send_log cid Success (Fmt ''Successfully processed robots.txt'' [])
               (set_status (ps\<lparr>robots_status := ''success''\<rparr>) s2)
         | Inr False \<Rightarrow>
             send_log cid Error (Fmt ''Failed to process robots.txt'' [])
               (set_status (ps\<lparr>robots_status := ''failed'',
                              errors := errors ps @ [Fmt ''Failed to process robots.txt'' []]\<rparr>) s2)
         | Inl err \<Rightarrow>
             send_log cid Error (Fmt ''Error in robots.txt processing: {}'' [Str err])
               (set_status (ps\<lparr>robots_status := ''error'',
                              errors := errors ps @ [Fmt ''Error in robots.txt processing: {}'' [Str err]]\<rparr>) s2))"

text \<open>The result is \<open>sitemap_pages\<close>, \<open>[url]\<close> unless the sitemap has pages.\<close>

definition process_sitemap :: "env \<Rightarrow> client_id \<Rightarrow> url \<Rightarrow> worker \<Rightarrow> url list \<times> worker" where
  "process_sitemap e cid u s =
     (let s1 = send_log cid Info (Fmt ''Processing sitemap for {}'' [Str u]) s;
          s2 = s1\<lparr>requests := requests s1 @ [SitemapReq u]\<rparr>;
          ps = processing_status s2
      in case sitemap e u of
           Inr page_urls \<Rightarrow>
             if page_urls \<noteq> [] then
               (page_urls,
                send_log cid Success (Fmt ''Found {} pages in sitemap'' [Num (int (length page_urls))])
                  (set_status (ps\<lparr>sitemap_status := ''success'', pages_found := length page_urls\<rparr>) s2))
             else
               ([u],
                send_log cid Warning (Fmt ''No pages found in sitemap'' [])
                  (set_status (ps\<lparr>sitemap_status := ''no_pages'',
                                 errors := errors ps @ [Fmt ''No pages found in sitemap'' []]\<rparr>) s2))
         | Inl err \<Rightarrow>
             ([u],
              send_log cid Error (Fmt ''Error in sitemap processing: {}'' [Str err])
                (set_status (ps\<lparr>sitemap_status := ''error'',
                               errors := errors ps @ [Fmt ''Error in sitemap processing: {}'' [Str err]]\<rparr>) s2)))"

subsection \<open>Step 3: the keyword filter (lines 439-527)\<close>

text \<open>
  The body of the loop of line 443 for a page that contains keywords (lines 462-477).
\<close>

definition record_match :: "client_id \<Rightarrow> url \<Rightarrow> string list \<Rightarrow> meta_info \<Rightarrow> (string \<times> string) list \<Rightarrow> worker \<Rightarrow> worker" where
  "record_match cid page_url matches meta contexts s =
     (let s1 = s\<lparr>pages_with_keywords := pages_with_keywords s + 1,
                  filtered_pages := filtered_pages s @ [page_url],
                  keyword_matches := dict_set page_url matches (keyword_matches s),
                  keyword_contexts := dict_set page_url contexts (keyword_contexts s),
                  meta_info_extracted := dict_set page_url meta (meta_info_extracted s)\<rparr>;
          s2 = send_log cid Success (Fmt ''Page {} contains keywords: {}'' [Str page_url, Strs matches]) s1
      in foldl (\<lambda>st kw. send_log cid Detail
                  (Fmt ''Match context: {}''
                     [Fmt ''{}: {}...''
                        [Str kw, Str (take 100 (case map_of contexts kw of
                                                   None \<Rightarrow> ''No context available''
                                                 | Some c \<Rightarrow> c))]]) st)
           s2 matches)"

text \<open>
  Lines 450-480, the \<open>try\<close> of the loop of line 443; \<open>n\<close> is the number of pages
  the loop goes through. Nothing in it raises (\<open>check_page_for_keywords\<close> catches its
  own exceptions), so the handler of lines 481-486, which would append the page to
  \<open>filtered_pages\<close>, is never entered.
\<close>

definition check_page :: "env \<Rightarrow> client_id \<Rightarrow> pyval list \<Rightarrow> bool \<Rightarrow> nat \<Rightarrow> url \<Rightarrow> worker \<Rightarrow> worker" where
  "check_page e cid kws im n page_url s =
     (let s1 = s\<lparr>pages_checked := pages_checked s + 1\<rparr>;
          s2 = send_log cid Info
                 (Fmt ''Checking page {}/{} for keywords: {}''
                    [Num (int (pages_checked s1)), Num (int n), Str page_url]) s1;
          s3 = s2\<lparr>requests := requests s2 @ [KeywordGet page_url]\<rparr>
      in case check_page_for_keywords e page_url kws im of
           (contains_keywords, matches, meta, contexts) \<Rightarrow>
             if contains_keywords then record_match cid page_url matches meta contexts s3
             else send_log cid Warning
                    (Fmt ''Page {} does not contain any keywords, skipping'' [Str page_url]) s3)"

text \<open>
  The loop of line 443 over \<open>sitemap_pages[:pages_limit]\<close>; \<open>i\<close> is the index of the
  page. The interruption is checked before each page.
\<close>

fun filter_loop :: "env \<Rightarrow> client_id \<Rightarrow> project_id \<Rightarrow> pyval list \<Rightarrow> bool \<Rightarrow> nat \<Rightarrow> nat \<Rightarrow> url list \<Rightarrow> worker \<Rightarrow> flow \<times> worker" where
  "filter_loop e cid pid kws im n i [] s = (Continue, s)"
| "filter_loop e cid pid kws im n i (page_url # rest) s =
     (case poll_interrupt e cid s of
        (True, s1) \<Rightarrow>
          (Return,
           handle_interruption e cid pid
             (send_log cid Warning (Fmt ''Filtering interrupted after checking {} pages'' [Num (int i)]) s1))
      | (False, s1) \<Rightarrow>
          filter_loop e cid pid kws im n (Suc i) rest (check_page e cid kws im n page_url s1))"

text \<open>Lines 488-509: the summary of the search, persisted at once when nothing matched.\<close>

definition keyword_summary :: "env \<Rightarrow> client_id \<Rightarrow> project_id \<Rightarrow> pyval list \<Rightarrow> worker \<Rightarrow> worker" where
  "keyword_summary e cid pid kws s =
     (if pages_with_keywords s > 0 then
        send_log cid Info
          (Fmt ''Found {} pages containing keywords out of {} checked''
             [Num (int (pages_with_keywords s)), Num (int (pages_checked s))]) s
      else
        let s1 = send_log cid Warning
                   (Fmt ''No pages containing the specified keywords were found after checking {} pages''
                      [Num (int (pages_checked s))]) s;
            s2 = set_status ((processing_status s1)\<lparr>keyword_search_performed := Some True,
                               keyword_search_results := Some ''no_matches'',
                               ps_pages_checked := Some (pages_checked s1),
                               search_keywords := kws\<rparr>) s1
        in update_project_partial_sync e pid
             [Set_keyword_search_performed True, Set_keyword_search_results ''no_matches'',
              Set_pages_checked (pages_checked s2), Set_search_keywords kws] s2)"

text \<open>
  Lines 511-524, after the loop and its summary: the matches go into the status, and
  \<open>pages_to_process\<close> is chosen.
\<close>

definition choose_pages :: "client_id \<Rightarrow> int \<Rightarrow> url list \<Rightarrow> worker \<Rightarrow> url list \<times> worker" where
  "choose_pages cid limit sitemap_pages s =
     (let s1 = set_status ((processing_status s)\<lparr>
                 ps_keyword_matches := Some (keyword_matches s),
                 ps_keyword_contexts := Some (keyword_contexts s),
                 ps_pages_with_keywords := Some (pages_with_keywords s),
                 ps_pages_checked := Some (pages_checked s)\<rparr>) s
      in if filtered_pages s1 \<noteq> [] then
           (filtered_pages s1,
            send_log cid Info (Fmt ''Processing only pages containing keywords'' []) s1)
         else
           (py_take (min limit (int (length sitemap_pages))) sitemap_pages,
            send_log cid Info
              (Fmt ''No pages matched keywords, processing a limited set of pages anyway'' []) s1))"

text \<open>
  The outcome of lines 439-527: an exception, the \<open>return\<close> after an interruption, or
  \<open>pages_to_process\<close>.
\<close>

datatype selection = Raised fstring | Returned | Pages "url list"

definition select_pages :: "env \<Rightarrow> client_id \<Rightarrow> project_id \<Rightarrow> int \<Rightarrow> pyval list \<Rightarrow> bool \<Rightarrow> url list \<Rightarrow> worker \<Rightarrow> selection \<times> worker" where
  "select_pages e cid pid limit kws im sitemap_pages s =
     (if kws \<noteq> [] then
        (case join_keywords kws of
           Inl exn \<Rightarrow> (Raised exn, s)
         | Inr strs \<Rightarrow>
             let s1 = send_log cid Info (Fmt ''Filtering pages by keywords: {}'' [Strs strs]) s;
                 candidates = py_take limit sitemap_pages
             in (case filter_loop e cid pid kws im (length candidates) 0 candidates s1 of
                  (Return, s2) \<Rightarrow> (Returned, s2)
                | (Continue, s2) \<Rightarrow>
                    (case choose_pages cid limit sitemap_pages (keyword_summary e cid pid kws s2) of
                       (pages_to_process, s3) \<Rightarrow> (Pages pages_to_process, s3))))
      else (Pages (py_take limit sitemap_pages), s))"

subsection \<open>Step 3, continued: scraping (lines 529-587)\<close>

text \<open>Lines 576-581: the handler of the loop body.\<close>

definition page_error :: "client_id \<Rightarrow> url \<Rightarrow> string \<Rightarrow> worker \<Rightarrow> worker" where
  "page_error cid page_url err s =
     (let error_msg = Fmt ''Error scraping {}: {}'' [Str page_url, Str err];
          s1 = send_log cid Error error_msg s
      in set_status ((processing_status s1)\<lparr>errors := errors (processing_status s1) @ [error_msg]\<rparr>) s1)"

text \<open>
  The meta information gathered for the page by the keyword check, if it is a non-empty
  dictionary (the test of lines 541 and 553).
\<close>

definition page_meta :: "worker \<Rightarrow> url \<Rightarrow> meta_info option" where
  "page_meta s page_url =
     (case map_of (meta_info_extracted s) page_url of
        None \<Rightarrow> None
      | Some m \<Rightarrow> if meta_truthy m then Some m else None)"

text \<open>Lines 534-546: the log lines before the page is fetched.\<close>

definition announce_page :: "client_id \<Rightarrow> nat \<Rightarrow> nat \<Rightarrow> url \<Rightarrow> worker \<Rightarrow> worker" where
  "announce_page cid n i page_url s =
     (let s1 = send_log cid Info
                 (Fmt ''Scraping page {}/{}: {}'' [Num (int (i + 1)), Num (int n), Str page_url]) s;
          s2 = (case map_of (keyword_matches s1) page_url of
                  None \<Rightarrow> s1
                | Some ms \<Rightarrow> send_log cid Detail (Fmt ''Keyword matches: {}'' [Strs ms]) s1)
      in case page_meta s2 page_url of
           None \<Rightarrow> s2
         | Some m \<Rightarrow>
             let s3 = (case mi_title m of None \<Rightarrow> s2
                       | Some x \<Rightarrow> send_log cid Detail (Fmt ''Meta title: {}'' [Str x]) s2)
             in (case mi_description m of None \<Rightarrow> s3
                 | Some x \<Rightarrow> send_log cid Detail (Fmt ''Meta description: {}'' [Str x]) s3))"

text \<open>
  Lines 560-574: the log lines after the page is stored. The record that
  \<open>scrape_website\<close> returns has the keys these lines read, so nothing raises here.
\<close>

definition log_scraped :: "client_id \<Rightarrow> url \<Rightarrow> scraped_data \<Rightarrow> worker \<Rightarrow> worker" where
  "log_scraped cid page_url scraped s =
     (let s1 = send_log cid Success (Fmt ''Successfully scraped {}'' [Str page_url]) s;
          s2 = send_log cid Detail
                 (Fmt ''Page size: {:.1f} KB'' [Ratio (content_size_bytes scraped) 1024]) s1;
          s3 = (case duration_ms scraped of
                  None \<Rightarrow> s2
                | Some ms \<Rightarrow>
                    if ms > 0 then
                      send_log cid Detail
                        (Fmt ''Page loaded in {} ms at speed: {:.1f} KB/s''
                           [Num (int ms), Ratio (speed_kbps scraped) 1]) s2
                    else s2)
      in send_log cid Detail
           (Fmt ''Extracted {} elements ({} text, {} images)''
              [Num (int (text_count scraped + image_count scraped)),
               Num (int (text_count scraped)), Num (int (image_count scraped))]) s3)"

text \<open>
  Lines 549-558: the page is fetched, gets the meta information of the keyword check, is
  stored and is appended to \<open>scraped_pages\<close>; an exception of either collaborator goes
  to the handler.
\<close>

definition fetch_and_store :: "env \<Rightarrow> client_id \<Rightarrow> url \<Rightarrow> worker \<Rightarrow> worker" where
  "fetch_and_store e cid page_url s =
     (let s1 = s\<lparr>requests := requests s @ [ScrapeReq page_url]\<rparr>
      in case scrape_website e page_url of
           Inl err \<Rightarrow> page_error cid page_url err s1
         | Inr data0 \<Rightarrow>
             let scraped = (case page_meta s1 page_url of
                              None \<Rightarrow> data0
                            | Some m \<Rightarrow> data0\<lparr>sd_meta_info := Some m\<rparr>)
             in (case store_in_mongodb e scraped of
                   Some err \<Rightarrow> page_error cid page_url err s1
                 | None \<Rightarrow>
                     log_scraped cid page_url scraped
                       (s1\<lparr>pages_db := pages_db s1 @ [scraped],
                           scraped_pages := scraped_pages s1 @ [page_url]\<rparr>)))"

text \<open>Lines 533-581, the body of the loop without the check for interruption.\<close>

definition scrape_page :: "env \<Rightarrow> client_id \<Rightarrow> nat \<Rightarrow> nat \<Rightarrow> url \<Rightarrow> worker \<Rightarrow> worker" where
  "scrape_page e cid n i page_url s = fetch_and_store e cid page_url (announce_page cid n i page_url s)"

text \<open>The loop of line 532; the interruption is checked after each page (line 583).\<close>

fun scrape_loop :: "env \<Rightarrow> client_id \<Rightarrow> project_id \<Rightarrow> nat \<Rightarrow> nat \<Rightarrow> url list \<Rightarrow> worker \<Rightarrow> flow \<times> worker" where
  "scrape_loop e cid pid n i [] s = (Continue, s)"
| "scrape_loop e cid pid n i (page_url # rest) s =
     (case poll_interrupt e cid (scrape_page e cid n i page_url s) of
        (True, s1) \<Rightarrow>
          (Return,
           handle_interruption e cid pid
             (send_log cid Warning
                (Fmt ''Scraping interrupted after processing {} pages'' [Num (int (i + 1))]) s1))
      | (False, s1) \<Rightarrow> scrape_loop e cid pid n (Suc i) rest s1)"

subsection \<open>Completion and failure (lines 589-659)\<close>

definition finish :: "env \<Rightarrow> client_id \<Rightarrow> project_id \<Rightarrow> pyval list \<Rightarrow> worker \<Rightarrow> worker" where
  "finish e cid pid kws s =
     (let ps = (processing_status s)\<lparr>pages_scraped := length (scraped_pages s),
                                     extraction_status := STATUS_COMPLETED,
                                     end_time := Some (clock s)\<rparr>;
          s1 = set_status ps (s\<lparr>clock := Suc (clock s)\<rparr>);
          s2 = update_project_partial_sync e pid
                 [Set_scraped_pages (scraped_pages s1), Set_pages_scraped (length (scraped_pages s1)),
                  Set_extraction_status STATUS_COMPLETED, Set_end_time (end_time ps)] s1;
          s3 = update_project_partial_sync e pid
                 [Set_keyword_matches (keyword_matches s2), Set_keyword_contexts (keyword_contexts s2),
                  Set_pages_with_keywords (pages_with_keywords s2), Set_pages_checked (pages_checked s2),
                  Set_keyword_search_performed (kws \<noteq> [])] s2;
          s4 = send_log cid Info (Fmt ''Extraction process completed'' []) s3
      in put_completion cid (Json pid (pages_found ps) (pages_scraped ps) None) s4)"

text \<open>The handler of line 637.\<close>

definition error_handler :: "env \<Rightarrow> client_id \<Rightarrow> project_id \<Rightarrow> fstring \<Rightarrow> worker \<Rightarrow> worker" where
  "error_handler e cid pid exn s =
     (let error_msg = Fmt ''Unexpected error in extraction thread: {}'' [exn];
          s1 = send_log cid Error error_msg s;
          s2 = (case active_extractions s1 cid of
                  None \<Rightarrow> s1
                | Some en \<Rightarrow> s1\<lparr>active_extractions := (active_extractions s1)(cid \<mapsto>
                                   en\<lparr>status := STATUS_ERROR, last_updated := clock s1\<rparr>),
                                clock := Suc (clock s1)\<rparr>);
          ps = (processing_status s2)\<lparr>extraction_status := STATUS_ERROR,
                                      end_time := Some (clock s2),
                                      errors := errors (processing_status s2) @ [error_msg]\<rparr>;
          s3 = set_status ps (s2\<lparr>clock := Suc (clock s2)\<rparr>)
      in update_project_partial_sync e pid [Set_processing_status ps] s3)"

subsection \<open>run_extraction_thread (lines 340-668)\<close>

text \<open>
  The worker starts from the shared state with a fresh \<open>processing_status\<close>; its other
  local variables, assigned at lines 429-437 before their first use, start empty.
\<close>

definition start_worker :: "'a system_scheme \<Rightarrow> pstatus \<Rightarrow> worker" where
  "start_worker sys ps =
     \<lparr>active_extractions = active_extractions sys, message_queues = message_queues sys,
      projects = projects sys, user_projects = user_projects sys, pages_db = pages_db sys,
      thread_pool = thread_pool sys, consumers = consumers sys, ws_sent = ws_sent sys,
      requests = requests sys, clock = Suc (clock sys), checks = checks sys,
      processing_status = ps, status_trace = [ps], scraped_pages = [], filtered_pages = [],
      keyword_matches = [], meta_info_extracted = [], keyword_contexts = [],
      pages_with_keywords = 0, pages_checked = 0\<rparr>"

text \<open>Lines 379-384; the \<open>join\<close> of line 382 may raise.\<close>

definition announce :: "client_id \<Rightarrow> url \<Rightarrow> pyval list \<Rightarrow> bool \<Rightarrow> worker \<Rightarrow> fstring option \<times> worker" where
  "announce cid u kws im s =
     (let s1 = send_log cid Info (Fmt ''Starting extraction process for {}'' [Str u]) s
      in if kws \<noteq> [] then
           (case join_keywords kws of
              Inl exn \<Rightarrow> (Some exn, s1)
            | Inr strs \<Rightarrow>
                let s2 = send_log cid Info (Fmt ''Using keyword filter: {}'' [Strs strs]) s1
                in (None, if im then send_log cid Info
                                    (Fmt ''Including meta information in keyword search'' []) s2
                          else s2))
         else (None, s1))"

text \<open>The \<open>try\<close> of line 362; \<open>Some exn\<close> is an exception that leaves it.\<close>

definition extraction_body :: "env \<Rightarrow> url \<Rightarrow> project_id \<Rightarrow> client_id \<Rightarrow> int \<Rightarrow> pyval list \<Rightarrow> bool \<Rightarrow> worker \<Rightarrow> fstring option \<times> worker" where
  "extraction_body e u pid cid limit kws im s =
     (case announce cid u kws im s of
        (Some exn, s1) \<Rightarrow> (Some exn, s1)
      | (None, s1) \<Rightarrow>
          (case process_sitemap e cid u (process_robots e cid u s1) of
             (sitemap_pages, s2) \<Rightarrow>
               (case select_pages e cid pid limit kws im sitemap_pages s2 of
                  (Raised exn, s3) \<Rightarrow> (Some exn, s3)
                | (Returned, s3) \<Rightarrow> (None, s3)
                | (Pages pages_to_process, s3) \<Rightarrow>
                    (case scrape_loop e cid pid (length pages_to_process) 0 pages_to_process
                            (send_log cid Info
                               (Fmt ''Starting to scrape {} pages'' [Num (int (length pages_to_process))]) s3) of
                       (Return, s4) \<Rightarrow> (None, s4)
                     | (Continue, s4) \<Rightarrow> (None, finish e cid pid kws s4)))))"

text \<open>
  The \<open>finally\<close> clause closes the database client and the event loop and deletes the
  job's \<open>extraction_stats\<close>; it changes nothing of the state modelled.
\<close>

definition run_extraction_thread :: "env \<Rightarrow> url \<Rightarrow> project_id \<Rightarrow> client_id \<Rightarrow> string \<Rightarrow> string \<Rightarrow> int \<Rightarrow> pyval list \<Rightarrow> bool \<Rightarrow> 'a system_scheme \<Rightarrow> worker" where
  "run_extraction_thread e u pid cid email mode limit kws im sys =
     (case extraction_body e u pid cid limit kws im
             (start_worker sys (initial_status (clock sys) mode limit kws im None)) of
        (Some exn, s) \<Rightarrow> error_handler e cid pid exn s
      | (None, s) \<Rightarrow> s)"

section \<open>Observations on states\<close>

text \<open>The kinds of the messages queued for a client, in order; none without a queue.\<close>

definition has_queue :: "client_id \<Rightarrow> 'a system_scheme \<Rightarrow> bool" where
  "has_queue c s = (message_queues s c \<noteq> None)"

definition kinds :: "client_id \<Rightarrow> 'a system_scheme \<Rightarrow> log_type list" where
  "kinds c s = (case message_queues s c of None \<Rightarrow> [] | Some q \<Rightarrow> map mtype q)"

definition completions :: "client_id \<Rightarrow> 'a system_scheme \<Rightarrow> nat" where
  "completions c s = length (filter (\<lambda>k. k = Completion) (kinds c s))"

text \<open>The fields of the status that the claims are about.\<close>

definition core :: "pstatus \<Rightarrow> status \<times> time option \<times> string \<times> nat \<times> nat" where
  "core ps = (extraction_status ps, end_time ps, sitemap_status ps, pages_found ps, pages_scraped ps)"

text \<open>
  A step of the worker that leaves these fields alone: the status is unchanged, or one
  new value of it is recorded.
\<close>

definition step :: "worker \<Rightarrow> worker \<Rightarrow> bool" where
  "step s s' = (core (processing_status s') = core (processing_status s)
     \<and> (status_trace s' = status_trace s \<and> processing_status s' = processing_status s
        \<or> status_trace s' = status_trace s @ [processing_status s']))"

definition running :: "pstatus \<Rightarrow> bool" where
  "running ps = (extraction_status ps = STATUS_RUNNING \<and> end_time ps = None)"

definition all_running :: "worker \<Rightarrow> bool" where
  "all_running s = (status_trace s \<noteq> [] \<and> last (status_trace s) = processing_status s
     \<and> (\<forall>ps \<in> set (status_trace s). running ps) \<and> running (processing_status s))"

definition ended_once :: "worker \<Rightarrow> bool" where
  "ended_once s = (\<exists>rs. status_trace s = rs @ [processing_status s] \<and> rs \<noteq> []
     \<and> (\<forall>ps \<in> set rs. running ps)
     \<and> is_terminal (extraction_status (processing_status s))
     \<and> end_time (processing_status s) \<noteq> None)"

text \<open>
  The number of pages the job can have scraped: the pages found in the sitemap, or the
  one page of the default when the sitemap gave none.
\<close>

definition cap :: "pstatus \<Rightarrow> nat" where
  "cap ps = (if sitemap_status ps = ''success'' then pages_found ps else 1)"

definition within_cap :: "pstatus \<Rightarrow> bool" where
  "within_cap ps = (pages_scraped ps \<le> cap ps \<and> (sitemap_status ps \<noteq> ''success'' \<longrightarrow> pages_found ps = 0))"

definition settled :: "worker \<Rightarrow> bool" where
  "settled s = (\<forall>ps \<in> set (status_trace s). within_cap ps)"

definition budget :: "nat \<Rightarrow> worker \<Rightarrow> bool" where
  "budget k s = (settled s \<and> within_cap (processing_status s)
     \<and> pages_scraped (processing_status s) = 0
     \<and> length (scraped_pages s) + k \<le> cap (processing_status s))"

section \<open>Concrete runs\<close>

definition idle_system :: system where
  "idle_system = \<lparr>active_extractions = Map.empty, message_queues = Map.empty, projects = Map.empty,
     user_projects = (\<lambda>_. []), pages_db = [], thread_pool = [], consumers = [], ws_sent = [],
     requests = [], clock = 0, checks = 0\<rparr>"

definition finished_registry :: "client_id \<rightharpoonup> extraction" where
  "finished_registry = [''job1'' \<mapsto> \<lparr>ex_project_id = ''p1'', status = STATUS_INTERRUPTED,
                                      interrupt_requested = True, last_updated = 3\<rparr>]"

text \<open>The state after a job for \<open>http://x.org\<close> was submitted with a connection manager.\<close>

definition submitted :: "pyval list \<Rightarrow> system" where
  "submitted kws = snd (add_project_with_scraping True ''p1'' ''ann@x.org'' ''http://x.org'' True
                          ''limited'' 5 (Some ''job1'') kws True idle_system)"

text \<open>The same, after \<open>interrupt_extraction\<close> was called for the job before its worker starts.\<close>

definition interrupted_early :: "pyval list \<Rightarrow> system" where
  "interrupted_early kws =
     (submitted kws)\<lparr>active_extractions :=
        snd (interrupt_extraction ''job1'' 9 (active_extractions (submitted kws)))\<rparr>"

definition page_of :: "url \<Rightarrow> scraped_data" where
  "page_of u = \<lparr>sd_url = u, content_size_bytes = 2048, duration_ms = Some 120, speed_kbps = 17,
                text_count = 3, image_count = 1, sd_meta_info = None\<rparr>"

definition doc_foo :: html_doc where
  "doc_foo = \<lparr>doc_text = ''All about Foo'', doc_title = Some ''Home'', doc_description = None,
              doc_keywords = None, doc_og = []\<rparr>"

definition doc_bar :: html_doc where
  "doc_bar = \<lparr>doc_text = ''Nothing here'', doc_title = None, doc_description = None,
              doc_keywords = None, doc_og = []\<rparr>"

text \<open>
  A site of two pages: \<open>/a\<close> contains "Foo", the request for \<open>/b\<close> fails in the keyword
  check; both can be scraped.
\<close>

definition site :: env where
  "site = \<lparr>robots = (\<lambda>u. Inr True),
           sitemap = (\<lambda>u. Inr [''http://x.org/a'', ''http://x.org/b'']),
           fetch_page = (\<lambda>u. if u = ''http://x.org/a'' then Inr doc_foo else Inl ''timed out''),
           scrape_website = (\<lambda>u. Inr (page_of u)),
           store_in_mongodb = (\<lambda>d. None),
           db_up = True,
           interrupt_at = None,
           consumer_exits = None\<rparr>"

text \<open>The same site, with an interrupt request just before the worker's first check.\<close>

definition site_interrupting :: env where
  "site_interrupting = site\<lparr>interrupt_at := Some 0\<rparr>"

text \<open>A site without a sitemap, whose only page does not contain "foo".\<close>

definition no_sitemap :: env where
  "no_sitemap = \<lparr>robots = (\<lambda>u. Inr True),
           sitemap = (\<lambda>u. Inl ''no sitemap''),
           fetch_page = (\<lambda>u. Inr doc_bar),
           scrape_website = (\<lambda>u. Inr (page_of u)),
           store_in_mongodb = (\<lambda>d. None),
           db_up = True,
           interrupt_at = None,
           consumer_exits = None\<rparr>"

section \<open>Properties\<close>

subsection \<open>Submission\<close>

text \<open>
  C7. For every accepted submission (non-empty URL, database reachable) the page limit
  recorded in the job's status, stored with the project and passed to the worker is 5 when
  the submitted limit is below 1, otherwise \<open>min limit 100\<close> in mode \<open>limited\<close> and the
  submitted limit unchanged in mode \<open>all\<close>.
\<close>

theorem effective_pages_limit:
  assumes "u \<noteq> []" and "db_ok"
  shows "\<exists>resp s'. add_project_with_scraping db_ok new_id email u ws mode limit cid0 kws im s = (Inr resp, s')
     \<and> (limit < 1 \<longrightarrow> pages_limit (resp_processing_status resp) = 5)
     \<and> (1 \<le> limit \<and> mode = ''limited'' \<longrightarrow> pages_limit (resp_processing_status resp) = min limit 100)
     \<and> (1 \<le> limit \<and> mode = ''all'' \<longrightarrow> pages_limit (resp_processing_status resp) = limit)
     \<and> (\<exists>p. projects s' new_id = Some p
            \<and> pages_limit (stored_status p) = pages_limit (resp_processing_status resp))
     \<and> (ws \<longrightarrow> (\<exists>j. thread_pool s' = thread_pool s @ [j]
            \<and> job_pages_limit j = pages_limit (resp_processing_status resp)))"
  using assms
  by (simp add: add_project_with_scraping_def Let_def initial_status_def
        validate_pages_limit_def validate_scrape_mode_def)

theorem effective_pages_limit_witness:
  "''https://example.com'' \<noteq> [] \<and> True \<and>
   (\<exists>resp s'. add_project_with_scraping True ''p1'' ''a@b.c'' ''https://example.com'' True
                 ''limited'' 250 None [] True idle_system = (Inr resp, s')
      \<and> pages_limit (resp_processing_status resp) = 100
      \<and> map job_pages_limit (thread_pool s') = [100])"
  using effective_pages_limit [of "''https://example.com''" True "''p1''" "''a@b.c''" True
          "''limited''" 250 None "[]" True idle_system]
  by (auto simp: idle_system_def)

text \<open>
  C2. A submission without a connection manager (\<open>ws_manager = None\<close>) is accepted and
  answered with "extraction started in background", the project is stored and the job is
  registered as running, but no worker is submitted to the thread pool: the
  \<open>thread_pool.submit\<close> of line 155 lies inside the \<open>if ws_manager:\<close> of line 140. No
  request is made and the stored status stays \<open>running\<close>.
\<close>

theorem no_subscriber_no_worker:
  "(case add_project_with_scraping True ''p1'' ''a@b.c'' ''https://example.com'' False
           ''limited'' 5 None [] True idle_system of
      (Inr resp, s') \<Rightarrow>
         resp_message resp = ''Project added successfully, extraction started in background''
       \<and> thread_pool s' = [] \<and> requests s' = [] \<and> message_queues s' (resp_client_id resp) = None
       \<and> map_option status (active_extractions s' (resp_client_id resp)) = Some STATUS_RUNNING
       \<and> map_option (extraction_status \<circ> stored_status) (projects s' (resp_project_id resp))
           = Some STATUS_RUNNING
    | (Inl err, s') \<Rightarrow> False)"
  by (simp add: add_project_with_scraping_def Let_def initial_status_def
        validate_pages_limit_def validate_scrape_mode_def idle_system_def)

lemma no_ws_no_submit:
  "thread_pool (snd (add_project_with_scraping db_ok new_id email u False mode limit cid0 kws im s))
     = thread_pool s"
  by (simp add: add_project_with_scraping_def Let_def)

subsection \<open>Interrupt requests\<close>

text \<open>
  C6, as stated, fails: for a job whose registry entry is still present in a terminal
  state, \<open>interrupt_extraction\<close> returns \<open>True\<close>, and the call changes the entry
  (\<open>last_updated\<close>) although the flag was set before.
\<close>

theorem interrupt_terminal_counterexample:
  "map_option status (finished_registry ''job1'') = Some STATUS_INTERRUPTED
   \<and> is_terminal STATUS_INTERRUPTED
   \<and> fst (interrupt_extraction ''job1'' 7 finished_registry) = True
   \<and> snd (interrupt_extraction ''job1'' 7 finished_registry) \<noteq> finished_registry"
  apply (simp add: finished_registry_def interrupt_extraction_def is_terminal_def)
  apply (rule notI)
  apply (drule_tac x="''job1''" in fun_cong)
  apply simp
  done

text \<open>
  C6, amended. \<open>interrupt_extraction\<close> returns \<open>False\<close>, and changes nothing, exactly
  when the job is unknown; for a known job, whatever its state, it returns \<open>True\<close>, sets
  \<open>interrupt_requested\<close> and stamps \<open>last_updated\<close>, leaving the state and the project
  of the entry as they were. A repeated call gives the same result and the same registry
  as the later call alone.
\<close>

theorem interrupt_extraction_result:
  "(ae cid = None \<longrightarrow> interrupt_extraction cid now ae = (False, ae))
   \<and> (\<forall>en. ae cid = Some en \<longrightarrow>
         interrupt_extraction cid now ae
           = (True, ae(cid \<mapsto> en\<lparr>interrupt_requested := True, last_updated := now\<rparr>)))
   \<and> interrupt_extraction cid later (snd (interrupt_extraction cid now ae))
       = interrupt_extraction cid later ae"
  by (auto simp: interrupt_extraction_def split: option.splits)

theorem interrupt_extraction_result_witness:
  "finished_registry ''job1'' = Some \<lparr>ex_project_id = ''p1'', status = STATUS_INTERRUPTED,
                                      interrupt_requested = True, last_updated = 3\<rparr>
   \<and> interrupt_extraction ''job1'' 7 finished_registry
       = (True, finished_registry(''job1'' \<mapsto> \<lparr>ex_project_id = ''p1'', status = STATUS_INTERRUPTED,
                                      interrupt_requested = True, last_updated = 7\<rparr>))
   \<and> Map.empty ''job1'' = (None :: extraction option)
   \<and> interrupt_extraction ''job1'' 7 Map.empty = (False, Map.empty)"
  using interrupt_extraction_result [of finished_registry "''job1''" 7 9]
        interrupt_extraction_result [of Map.empty "''job1''" 7 9]
  by (simp add: finished_registry_def)

section \<open>The worker\<close>

subsection \<open>What each operation leaves unchanged\<close>

lemma send_log_frame [simp]:
  "active_extractions (send_log c t m s) = active_extractions s"
  "projects (send_log c t m s) = projects s"
  "pages_db (send_log c t m s) = pages_db s"
  "requests (send_log c t m s) = requests s"
  "checks (send_log c t m s) = checks s"
  "consumers (send_log c t m s) = consumers s"
  by (simp_all add: send_log_def split: option.splits)

lemma send_log_locals [simp]:
  "processing_status (send_log c t m (s::worker)) = processing_status s"
  "status_trace (send_log c t m (s::worker)) = status_trace s"
  "scraped_pages (send_log c t m (s::worker)) = scraped_pages s"
  "filtered_pages (send_log c t m (s::worker)) = filtered_pages s"
  "keyword_matches (send_log c t m (s::worker)) = keyword_matches s"
  "meta_info_extracted (send_log c t m (s::worker)) = meta_info_extracted s"
  "keyword_contexts (send_log c t m (s::worker)) = keyword_contexts s"
  "pages_with_keywords (send_log c t m (s::worker)) = pages_with_keywords s"
  "pages_checked (send_log c t m (s::worker)) = pages_checked s"
  by (simp_all add: send_log_def split: option.splits)

lemma put_completion_frame [simp]:
  "active_extractions (put_completion c pl s) = active_extractions s"
  "projects (put_completion c pl s) = projects s"
  "pages_db (put_completion c pl s) = pages_db s"
  "requests (put_completion c pl s) = requests s"
  "checks (put_completion c pl s) = checks s"
  "consumers (put_completion c pl s) = consumers s"
  by (simp_all add: put_completion_def split: option.splits)

lemma put_completion_locals [simp]:
  "processing_status (put_completion c pl (s::worker)) = processing_status s"
  "status_trace (put_completion c pl (s::worker)) = status_trace s"
  "scraped_pages (put_completion c pl (s::worker)) = scraped_pages s"
  "filtered_pages (put_completion c pl (s::worker)) = filtered_pages s"
  "keyword_matches (put_completion c pl (s::worker)) = keyword_matches s"
  "meta_info_extracted (put_completion c pl (s::worker)) = meta_info_extracted s"
  "keyword_contexts (put_completion c pl (s::worker)) = keyword_contexts s"
  "pages_with_keywords (put_completion c pl (s::worker)) = pages_with_keywords s"
  "pages_checked (put_completion c pl (s::worker)) = pages_checked s"
  by (simp_all add: put_completion_def split: option.splits)

lemma consumer_step_frame [simp]:
  "projects (consumer_step e p c s) = projects s"
  "pages_db (consumer_step e p c s) = pages_db s"
  "requests (consumer_step e p c s) = requests s"
  "checks (consumer_step e p c s) = checks s"
  "consumers (consumer_step e p c s) = consumers s"
  by (simp_all add: consumer_step_def consumer_exit_def)

lemma consumer_step_locals [simp]:
  "processing_status (consumer_step e p c (s::worker)) = processing_status s"
  "status_trace (consumer_step e p c (s::worker)) = status_trace s"
  "scraped_pages (consumer_step e p c (s::worker)) = scraped_pages s"
  "filtered_pages (consumer_step e p c (s::worker)) = filtered_pages s"
  "keyword_matches (consumer_step e p c (s::worker)) = keyword_matches s"
  "meta_info_extracted (consumer_step e p c (s::worker)) = meta_info_extracted s"
  "keyword_contexts (consumer_step e p c (s::worker)) = keyword_contexts s"
  "pages_with_keywords (consumer_step e p c (s::worker)) = pages_with_keywords s"
  "pages_checked (consumer_step e p c (s::worker)) = pages_checked s"
  by (simp_all add: consumer_step_def consumer_exit_def)

lemma set_status_frame [simp]:
  "active_extractions (set_status ps s) = active_extractions s"
  "projects (set_status ps s) = projects s"
  "pages_db (set_status ps s) = pages_db s"
  "requests (set_status ps s) = requests s"
  "checks (set_status ps s) = checks s"
  "consumers (set_status ps s) = consumers s"
  "message_queues (set_status ps s) = message_queues s"
  "scraped_pages (set_status ps s) = scraped_pages s"
  "filtered_pages (set_status ps s) = filtered_pages s"
  "keyword_matches (set_status ps s) = keyword_matches s"
  "meta_info_extracted (set_status ps s) = meta_info_extracted s"
  "keyword_contexts (set_status ps s) = keyword_contexts s"
  "pages_with_keywords (set_status ps s) = pages_with_keywords s"
  "pages_checked (set_status ps s) = pages_checked s"
  by (simp_all add: set_status_def)

lemma update_project_frame [simp]:
  "active_extractions (update_project_partial_sync e pid upd s) = active_extractions s"
  "pages_db (update_project_partial_sync e pid upd s) = pages_db s"
  "requests (update_project_partial_sync e pid upd s) = requests s"
  "checks (update_project_partial_sync e pid upd s) = checks s"
  "consumers (update_project_partial_sync e pid upd s) = consumers s"
  "message_queues (update_project_partial_sync e pid upd s) = message_queues s"
  by (simp_all add: update_project_partial_sync_def split: option.splits)

lemma update_project_locals [simp]:
  "processing_status (update_project_partial_sync e pid upd (s::worker)) = processing_status s"
  "status_trace (update_project_partial_sync e pid upd (s::worker)) = status_trace s"
  "scraped_pages (update_project_partial_sync e pid upd (s::worker)) = scraped_pages s"
  "filtered_pages (update_project_partial_sync e pid upd (s::worker)) = filtered_pages s"
  "keyword_matches (update_project_partial_sync e pid upd (s::worker)) = keyword_matches s"
  "meta_info_extracted (update_project_partial_sync e pid upd (s::worker)) = meta_info_extracted s"
  "keyword_contexts (update_project_partial_sync e pid upd (s::worker)) = keyword_contexts s"
  "pages_with_keywords (update_project_partial_sync e pid upd (s::worker)) = pages_with_keywords s"
  "pages_checked (update_project_partial_sync e pid upd (s::worker)) = pages_checked s"
  by (simp_all add: update_project_partial_sync_def split: option.splits)

lemma poll_interrupt_frame [simp]:
  "projects (snd (poll_interrupt e cid s)) = projects s"
  "pages_db (snd (poll_interrupt e cid s)) = pages_db s"
  "requests (snd (poll_interrupt e cid s)) = requests s"
  "message_queues (snd (poll_interrupt e cid s)) = message_queues s"
  "consumers (snd (poll_interrupt e cid s)) = consumers s"
  by (simp_all add: poll_interrupt_def Let_def)

lemma poll_interrupt_locals [simp]:
  "processing_status (snd (poll_interrupt e cid (s::worker))) = processing_status s"
  "status_trace (snd (poll_interrupt e cid (s::worker))) = status_trace s"
  "scraped_pages (snd (poll_interrupt e cid (s::worker))) = scraped_pages s"
  "filtered_pages (snd (poll_interrupt e cid (s::worker))) = filtered_pages s"
  "keyword_matches (snd (poll_interrupt e cid (s::worker))) = keyword_matches s"
  "meta_info_extracted (snd (poll_interrupt e cid (s::worker))) = meta_info_extracted s"
  "keyword_contexts (snd (poll_interrupt e cid (s::worker))) = keyword_contexts s"
  "pages_with_keywords (snd (poll_interrupt e cid (s::worker))) = pages_with_keywords s"
  "pages_checked (snd (poll_interrupt e cid (s::worker))) = pages_checked s"
  by (simp_all add: poll_interrupt_def Let_def)

lemma process_robots_frame [simp]:
  "active_extractions (process_robots e cid u s) = active_extractions s"
  "projects (process_robots e cid u s) = projects s"
  "pages_db (process_robots e cid u s) = pages_db s"
  "checks (process_robots e cid u s) = checks s"
  "consumers (process_robots e cid u s) = consumers s"
  "scraped_pages (process_robots e cid u s) = scraped_pages s"
  "filtered_pages (process_robots e cid u s) = filtered_pages s"
  "keyword_matches (process_robots e cid u s) = keyword_matches s"
  "meta_info_extracted (process_robots e cid u s) = meta_info_extracted s"
  "keyword_contexts (process_robots e cid u s) = keyword_contexts s"
  "pages_with_keywords (process_robots e cid u s) = pages_with_keywords s"
  "pages_checked (process_robots e cid u s) = pages_checked s"
  by (simp_all add: process_robots_def Let_def split: sum.splits bool.splits option.splits)

lemma process_sitemap_frame [simp]:
  "active_extractions (snd (process_sitemap e cid u s)) = active_extractions s"
  "projects (snd (process_sitemap e cid u s)) = projects s"
  "pages_db (snd (process_sitemap e cid u s)) = pages_db s"
  "checks (snd (process_sitemap e cid u s)) = checks s"
  "consumers (snd (process_sitemap e cid u s)) = consumers s"
  "scraped_pages (snd (process_sitemap e cid u s)) = scraped_pages s"
  "filtered_pages (snd (process_sitemap e cid u s)) = filtered_pages s"
  "keyword_matches (snd (process_sitemap e cid u s)) = keyword_matches s"
  "meta_info_extracted (snd (process_sitemap e cid u s)) = meta_info_extracted s"
  "keyword_contexts (snd (process_sitemap e cid u s)) = keyword_contexts s"
  "pages_with_keywords (snd (process_sitemap e cid u s)) = pages_with_keywords s"
  "pages_checked (snd (process_sitemap e cid u s)) = pages_checked s"
  by (simp_all add: process_sitemap_def Let_def split: sum.splits bool.splits option.splits)

lemma match_logs_frame [simp]:
  "active_extractions (foldl (\<lambda>st kw. send_log c t (f kw) st) s ms) = active_extractions s"
  "projects (foldl (\<lambda>st kw. send_log c t (f kw) st) s ms) = projects s"
  "pages_db (foldl (\<lambda>st kw. send_log c t (f kw) st) s ms) = pages_db s"
  "requests (foldl (\<lambda>st kw. send_log c t (f kw) st) s ms) = requests s"
  "checks (foldl (\<lambda>st kw. send_log c t (f kw) st) s ms) = checks s"
  "consumers (foldl (\<lambda>st kw. send_log c t (f kw) st) s ms) = consumers s"
  by (induction ms arbitrary: s) simp_all

lemma match_logs_locals [simp]:
  "processing_status (foldl (\<lambda>st kw. send_log c t (f kw) st) (s::worker) ms) = processing_status s"
  "status_trace (foldl (\<lambda>st kw. send_log c t (f kw) st) (s::worker) ms) = status_trace s"
  "scraped_pages (foldl (\<lambda>st kw. send_log c t (f kw) st) (s::worker) ms) = scraped_pages s"
  "filtered_pages (foldl (\<lambda>st kw. send_log c t (f kw) st) (s::worker) ms) = filtered_pages s"
  "keyword_matches (foldl (\<lambda>st kw. send_log c t (f kw) st) (s::worker) ms) = keyword_matches s"
  "meta_info_extracted (foldl (\<lambda>st kw. send_log c t (f kw) st) (s::worker) ms) = meta_info_extracted s"
  "keyword_contexts (foldl (\<lambda>st kw. send_log c t (f kw) st) (s::worker) ms) = keyword_contexts s"
  "pages_with_keywords (foldl (\<lambda>st kw. send_log c t (f kw) st) (s::worker) ms) = pages_with_keywords s"
  "pages_checked (foldl (\<lambda>st kw. send_log c t (f kw) st) (s::worker) ms) = pages_checked s"
  by (induction ms arbitrary: s) simp_all

lemma record_match_frame [simp]:
  "active_extractions (record_match cid p ms meta ctx s) = active_extractions s"
  "projects (record_match cid p ms meta ctx s) = projects s"
  "pages_db (record_match cid p ms meta ctx s) = pages_db s"
  "requests (record_match cid p ms meta ctx s) = requests s"
  "checks (record_match cid p ms meta ctx s) = checks s"
  "consumers (record_match cid p ms meta ctx s) = consumers s"
  "processing_status (record_match cid p ms meta ctx s) = processing_status s"
  "status_trace (record_match cid p ms meta ctx s) = status_trace s"
  "scraped_pages (record_match cid p ms meta ctx s) = scraped_pages s"
  "pages_checked (record_match cid p ms meta ctx s) = pages_checked s"
  by (simp_all add: record_match_def Let_def split: sum.splits bool.splits option.splits)

lemma check_page_frame [simp]:
  "active_extractions (check_page e cid kws im n p s) = active_extractions s"
  "projects (check_page e cid kws im n p s) = projects s"
  "pages_db (check_page e cid kws im n p s) = pages_db s"
  "checks (check_page e cid kws im n p s) = checks s"
  "consumers (check_page e cid kws im n p s) = consumers s"
  "processing_status (check_page e cid kws im n p s) = processing_status s"
  "status_trace (check_page e cid kws im n p s) = status_trace s"
  "scraped_pages (check_page e cid kws im n p s) = scraped_pages s"
  by (simp_all add: check_page_def Let_def split: prod.splits)

lemma keyword_summary_frame [simp]:
  "active_extractions (keyword_summary e cid pid kws s) = active_extractions s"
  "pages_db (keyword_summary e cid pid kws s) = pages_db s"
  "requests (keyword_summary e cid pid kws s) = requests s"
  "checks (keyword_summary e cid pid kws s) = checks s"
  "consumers (keyword_summary e cid pid kws s) = consumers s"
  "scraped_pages (keyword_summary e cid pid kws s) = scraped_pages s"
  "filtered_pages (keyword_summary e cid pid kws s) = filtered_pages s"
  "keyword_matches (keyword_summary e cid pid kws s) = keyword_matches s"
  "meta_info_extracted (keyword_summary e cid pid kws s) = meta_info_extracted s"
  "keyword_contexts (keyword_summary e cid pid kws s) = keyword_contexts s"
  "pages_with_keywords (keyword_summary e cid pid kws s) = pages_with_keywords s"
  "pages_checked (keyword_summary e cid pid kws s) = pages_checked s"
  by (simp_all add: keyword_summary_def Let_def split: sum.splits bool.splits option.splits)

lemma page_error_frame [simp]:
  "active_extractions (page_error cid p err s) = active_extractions s"
  "projects (page_error cid p err s) = projects s"
  "pages_db (page_error cid p err s) = pages_db s"
  "requests (page_error cid p err s) = requests s"
  "checks (page_error cid p err s) = checks s"
  "consumers (page_error cid p err s) = consumers s"
  "scraped_pages (page_error cid p err s) = scraped_pages s"
  "filtered_pages (page_error cid p err s) = filtered_pages s"
  "keyword_matches (page_error cid p err s) = keyword_matches s"
  "meta_info_extracted (page_error cid p err s) = meta_info_extracted s"
  "keyword_contexts (page_error cid p err s) = keyword_contexts s"
  "pages_with_keywords (page_error cid p err s) = pages_with_keywords s"
  "pages_checked (page_error cid p err s) = pages_checked s"
  by (simp_all add: page_error_def Let_def split: sum.splits bool.splits option.splits)

lemma page_meta_cong: "meta_info_extracted s' = meta_info_extracted s \<Longrightarrow> page_meta s' p = page_meta s p"
  by (simp add: page_meta_def)

lemma announce_page_frame [simp]:
  "active_extractions (announce_page cid n i p s) = active_extractions s"
  "projects (announce_page cid n i p s) = projects s"
  "pages_db (announce_page cid n i p s) = pages_db s"
  "requests (announce_page cid n i p s) = requests s"
  "checks (announce_page cid n i p s) = checks s"
  "consumers (announce_page cid n i p s) = consumers s"
  "processing_status (announce_page cid n i p s) = processing_status s"
  "status_trace (announce_page cid n i p s) = status_trace s"
  "scraped_pages (announce_page cid n i p s) = scraped_pages s"
  "filtered_pages (announce_page cid n i p s) = filtered_pages s"
  "keyword_matches (announce_page cid n i p s) = keyword_matches s"
  "meta_info_extracted (announce_page cid n i p s) = meta_info_extracted s"
  "keyword_contexts (announce_page cid n i p s) = keyword_contexts s"
  "pages_with_keywords (announce_page cid n i p s) = pages_with_keywords s"
  "pages_checked (announce_page cid n i p s) = pages_checked s"
  by (simp_all add: announce_page_def Let_def split: option.splits)

lemma log_scraped_frame [simp]:
  "active_extractions (log_scraped cid p d s) = active_extractions s"
  "projects (log_scraped cid p d s) = projects s"
  "pages_db (log_scraped cid p d s) = pages_db s"
  "requests (log_scraped cid p d s) = requests s"
  "checks (log_scraped cid p d s) = checks s"
  "consumers (log_scraped cid p d s) = consumers s"
  "processing_status (log_scraped cid p d s) = processing_status s"
  "status_trace (log_scraped cid p d s) = status_trace s"
  "scraped_pages (log_scraped cid p d s) = scraped_pages s"
  "filtered_pages (log_scraped cid p d s) = filtered_pages s"
  "keyword_matches (log_scraped cid p d s) = keyword_matches s"
  "meta_info_extracted (log_scraped cid p d s) = meta_info_extracted s"
  "keyword_contexts (log_scraped cid p d s) = keyword_contexts s"
  "pages_with_keywords (log_scraped cid p d s) = pages_with_keywords s"
  "pages_checked (log_scraped cid p d s) = pages_checked s"
  by (simp_all add: log_scraped_def Let_def split: option.splits)

lemma fetch_and_store_frame [simp]:
  "active_extractions (fetch_and_store e cid p s) = active_extractions s"
  "projects (fetch_and_store e cid p s) = projects s"
  "checks (fetch_and_store e cid p s) = checks s"
  "consumers (fetch_and_store e cid p s) = consumers s"
  "filtered_pages (fetch_and_store e cid p s) = filtered_pages s"
  "keyword_matches (fetch_and_store e cid p s) = keyword_matches s"
  "meta_info_extracted (fetch_and_store e cid p s) = meta_info_extracted s"
  "keyword_contexts (fetch_and_store e cid p s) = keyword_contexts s"
  "pages_with_keywords (fetch_and_store e cid p s) = pages_with_keywords s"
  "pages_checked (fetch_and_store e cid p s) = pages_checked s"
  by (simp_all add: fetch_and_store_def Let_def split: sum.splits option.splits)

lemma scrape_page_frame [simp]:
  "active_extractions (scrape_page e cid n i p s) = active_extractions s"
  "projects (scrape_page e cid n i p s) = projects s"
  "checks (scrape_page e cid n i p s) = checks s"
  "consumers (scrape_page e cid n i p s) = consumers s"
  "filtered_pages (scrape_page e cid n i p s) = filtered_pages s"
  "keyword_matches (scrape_page e cid n i p s) = keyword_matches s"
  "meta_info_extracted (scrape_page e cid n i p s) = meta_info_extracted s"
  "keyword_contexts (scrape_page e cid n i p s) = keyword_contexts s"
  "pages_with_keywords (scrape_page e cid n i p s) = pages_with_keywords s"
  "pages_checked (scrape_page e cid n i p s) = pages_checked s"
  by (simp_all add: scrape_page_def)

lemma handle_interruption_frame [simp]:
  "pages_db (handle_interruption e cid pid s) = pages_db s"
  "requests (handle_interruption e cid pid s) = requests s"
  "checks (handle_interruption e cid pid s) = checks s"
  "scraped_pages (handle_interruption e cid pid s) = scraped_pages s"
  "filtered_pages (handle_interruption e cid pid s) = filtered_pages s"
  "keyword_matches (handle_interruption e cid pid s) = keyword_matches s"
  "meta_info_extracted (handle_interruption e cid pid s) = meta_info_extracted s"
  "keyword_contexts (handle_interruption e cid pid s) = keyword_contexts s"
  "pages_with_keywords (handle_interruption e cid pid s) = pages_with_keywords s"
  "pages_checked (handle_interruption e cid pid s) = pages_checked s"
  by (simp_all add: handle_interruption_def Let_def split: sum.splits bool.splits option.splits)

lemma finish_frame [simp]:
  "active_extractions (finish e cid pid kws s) = active_extractions s"
  "pages_db (finish e cid pid kws s) = pages_db s"
  "requests (finish e cid pid kws s) = requests s"
  "checks (finish e cid pid kws s) = checks s"
  "scraped_pages (finish e cid pid kws s) = scraped_pages s"
  "filtered_pages (finish e cid pid kws s) = filtered_pages s"
  "keyword_matches (finish e cid pid kws s) = keyword_matches s"
  "meta_info_extracted (finish e cid pid kws s) = meta_info_extracted s"
  "keyword_contexts (finish e cid pid kws s) = keyword_contexts s"
  "pages_with_keywords (finish e cid pid kws s) = pages_with_keywords s"
  "pages_checked (finish e cid pid kws s) = pages_checked s"
  by (simp_all add: finish_def Let_def split: sum.splits bool.splits option.splits)

lemma error_handler_frame [simp]:
  "pages_db (error_handler e cid pid exn s) = pages_db s"
  "requests (error_handler e cid pid exn s) = requests s"
  "checks (error_handler e cid pid exn s) = checks s"
  "scraped_pages (error_handler e cid pid exn s) = scraped_pages s"
  "filtered_pages (error_handler e cid pid exn s) = filtered_pages s"
  "keyword_matches (error_handler e cid pid exn s) = keyword_matches s"
  "meta_info_extracted (error_handler e cid pid exn s) = meta_info_extracted s"
  "keyword_contexts (error_handler e cid pid exn s) = keyword_contexts s"
  "pages_with_keywords (error_handler e cid pid exn s) = pages_with_keywords s"
  "pages_checked (error_handler e cid pid exn s) = pages_checked s"
  by (simp_all add: error_handler_def Let_def split: sum.splits bool.splits option.splits)

lemma announce_frame [simp]:
  "active_extractions (snd (announce c u kws im s)) = active_extractions s"
  "projects (snd (announce c u kws im s)) = projects s"
  "pages_db (snd (announce c u kws im s)) = pages_db s"
  "requests (snd (announce c u kws im s)) = requests s"
  "checks (snd (announce c u kws im s)) = checks s"
  "consumers (snd (announce c u kws im s)) = consumers s"
  "processing_status (snd (announce c u kws im s)) = processing_status s"
  "status_trace (snd (announce c u kws im s)) = status_trace s"
  "scraped_pages (snd (announce c u kws im s)) = scraped_pages s"
  "filtered_pages (snd (announce c u kws im s)) = filtered_pages s"
  "keyword_matches (snd (announce c u kws im s)) = keyword_matches s"
  "meta_info_extracted (snd (announce c u kws im s)) = meta_info_extracted s"
  "keyword_contexts (snd (announce c u kws im s)) = keyword_contexts s"
  "pages_with_keywords (snd (announce c u kws im s)) = pages_with_keywords s"
  "pages_checked (snd (announce c u kws im s)) = pages_checked s"
  by (simp_all add: announce_def Let_def split: sum.splits bool.splits option.splits)

subsection \<open>The message queue\<close>

lemma send_log_queue [simp]:
  "has_queue c' (send_log c t m s) = has_queue c' s"
  "kinds c' (send_log c t m s) = kinds c' s @ (if c' = c \<and> has_queue c s then [t] else [])"
  by (auto simp: has_queue_def kinds_def send_log_def split: option.splits)

lemma put_completion_queue [simp]:
  "has_queue c' (put_completion c pl s) = has_queue c' s"
  "kinds c' (put_completion c pl s) = kinds c' s @ (if c' = c \<and> has_queue c s then [Completion] else [])"
  by (auto simp: has_queue_def kinds_def put_completion_def split: option.splits)

lemma queue_updates [simp]:
  "has_queue c (requests_update f0 s) = has_queue c s"
  "kinds c (requests_update f0 s) = kinds c s"
  "has_queue c (pages_checked_update f1 s) = has_queue c s"
  "kinds c (pages_checked_update f1 s) = kinds c s"
  "has_queue c (pages_with_keywords_update f2 s) = has_queue c s"
  "kinds c (pages_with_keywords_update f2 s) = kinds c s"
  "has_queue c (filtered_pages_update f3 s) = has_queue c s"
  "kinds c (filtered_pages_update f3 s) = kinds c s"
  "has_queue c (keyword_matches_update f4 s) = has_queue c s"
  "kinds c (keyword_matches_update f4 s) = kinds c s"
  "has_queue c (keyword_contexts_update f5 s) = has_queue c s"
  "kinds c (keyword_contexts_update f5 s) = kinds c s"
  "has_queue c (meta_info_extracted_update f6 s) = has_queue c s"
  "kinds c (meta_info_extracted_update f6 s) = kinds c s"
  "has_queue c (pages_db_update f7 s) = has_queue c s"
  "kinds c (pages_db_update f7 s) = kinds c s"
  "has_queue c (scraped_pages_update f8 s) = has_queue c s"
  "kinds c (scraped_pages_update f8 s) = kinds c s"
  "has_queue c (clock_update f9 s) = has_queue c s"
  "kinds c (clock_update f9 s) = kinds c s"
  "has_queue c (active_extractions_update f10 s) = has_queue c s"
  "kinds c (active_extractions_update f10 s) = kinds c s"
  "has_queue c (checks_update f11 s) = has_queue c s"
  "kinds c (checks_update f11 s) = kinds c s"
  "has_queue c (projects_update f12 s) = has_queue c s"
  "kinds c (projects_update f12 s) = kinds c s"
  "has_queue c (processing_status_update f13 s) = has_queue c s"
  "kinds c (processing_status_update f13 s) = kinds c s"
  "has_queue c (status_trace_update f14 s) = has_queue c s"
  "kinds c (status_trace_update f14 s) = kinds c s"
  by (simp_all add: has_queue_def kinds_def)

lemma quiet_ops_queue [simp]:
  "has_queue c (set_status ps s) = has_queue c s"
  "kinds c (set_status ps s) = kinds c s"
  "has_queue c (update_project_partial_sync e pid upd s) = has_queue c s"
  "kinds c (update_project_partial_sync e pid upd s) = kinds c s"
  "has_queue c (snd (poll_interrupt e cid s)) = has_queue c s"
  "kinds c (snd (poll_interrupt e cid s)) = kinds c s"
  by (simp_all add: has_queue_def kinds_def)

lemma completions_log [simp]:
  "t \<noteq> Completion \<Longrightarrow> completions c' (send_log c t m s) = completions c' s"
  by (simp add: completions_def)

lemma completions_quiet [simp]:
  "completions c (set_status ps s) = completions c s"
  "completions c (update_project_partial_sync e pid upd s) = completions c s"
  "completions c (snd (poll_interrupt e cid s)) = completions c s"
  by (simp_all add: completions_def)

lemma completions_updates [simp]:
  "completions c (requests_update f0 s) = completions c s"
  "completions c (pages_checked_update f1 s) = completions c s"
  "completions c (pages_with_keywords_update f2 s) = completions c s"
  "completions c (filtered_pages_update f3 s) = completions c s"
  "completions c (keyword_matches_update f4 s) = completions c s"
  "completions c (keyword_contexts_update f5 s) = completions c s"
  "completions c (meta_info_extracted_update f6 s) = completions c s"
  "completions c (pages_db_update f7 s) = completions c s"
  "completions c (scraped_pages_update f8 s) = completions c s"
  "completions c (clock_update f9 s) = completions c s"
  "completions c (active_extractions_update f10 s) = completions c s"
  "completions c (checks_update f11 s) = completions c s"
  "completions c (projects_update f12 s) = completions c s"
  "completions c (processing_status_update f13 s) = completions c s"
  "completions c (status_trace_update f14 s) = completions c s"
  by (simp_all add: completions_def)

lemma process_robots_queue [simp]:
  "has_queue c (process_robots e cid u s) = has_queue c s"
  "completions c (process_robots e cid u s) = completions c s"
  by (simp_all add: process_robots_def Let_def split: sum.splits bool.splits)

lemma process_sitemap_queue [simp]:
  "has_queue c (snd (process_sitemap e cid u s)) = has_queue c s"
  "completions c (snd (process_sitemap e cid u s)) = completions c s"
  by (simp_all add: process_sitemap_def Let_def split: sum.splits bool.splits)

lemma match_logs_queue [simp]:
  "has_queue c (foldl (\<lambda>st kw. send_log c' t (f kw) st) s ms) = has_queue c s"
  "t \<noteq> Completion \<Longrightarrow> completions c (foldl (\<lambda>st kw. send_log c' t (f kw) st) s ms) = completions c s"
  by (induction ms arbitrary: s) simp_all

lemma record_match_queue [simp]:
  "has_queue c (record_match cid p ms meta ctx s) = has_queue c s"
  "completions c (record_match cid p ms meta ctx s) = completions c s"
  by (simp_all add: record_match_def Let_def)

lemma check_page_queue [simp]:
  "has_queue c (check_page e cid kws im n p s) = has_queue c s"
  "completions c (check_page e cid kws im n p s) = completions c s"
  by (simp_all add: check_page_def Let_def split: prod.splits)

lemma keyword_summary_queue [simp]:
  "has_queue c (keyword_summary e cid pid kws s) = has_queue c s"
  "completions c (keyword_summary e cid pid kws s) = completions c s"
  by (simp_all add: keyword_summary_def Let_def)

lemma page_error_queue [simp]:
  "has_queue c (page_error cid p err s) = has_queue c s"
  "completions c (page_error cid p err s) = completions c s"
  by (simp_all add: page_error_def Let_def)

lemma announce_page_queue [simp]:
  "has_queue c (announce_page cid n i p s) = has_queue c s"
  "completions c (announce_page cid n i p s) = completions c s"
  by (simp_all add: announce_page_def Let_def split: option.splits)

lemma log_scraped_queue [simp]:
  "has_queue c (log_scraped cid p d s) = has_queue c s"
  "completions c (log_scraped cid p d s) = completions c s"
  by (simp_all add: log_scraped_def Let_def split: option.splits)

lemma fetch_and_store_queue [simp]:
  "has_queue c (fetch_and_store e cid p s) = has_queue c s"
  "completions c (fetch_and_store e cid p s) = completions c s"
  by (simp_all add: fetch_and_store_def Let_def split: sum.splits option.splits)

lemma scrape_page_queue [simp]:
  "has_queue c (scrape_page e cid n i p s) = has_queue c s"
  "completions c (scrape_page e cid n i p s) = completions c s"
  by (simp_all add: scrape_page_def)

lemma announce_queue [simp]:
  "has_queue c (snd (announce cid u kws im s)) = has_queue c s"
  "completions c (snd (announce cid u kws im s)) = completions c s"
  by (simp_all add: announce_def Let_def split: sum.splits)

subsection \<open>Steps and the status trace\<close>

lemma step_same: "processing_status s' = processing_status s \<Longrightarrow> status_trace s' = status_trace s \<Longrightarrow> step s s'"
  by (simp add: step_def)

lemma step_set_status: "core ps = core (processing_status s) \<Longrightarrow> step s (set_status ps s)"
  by (simp add: step_def set_status_def)

lemma process_robots_step: "step s (process_robots e cid u s)"
  by (simp add: step_def core_def process_robots_def set_status_def Let_def split: sum.splits bool.splits)

lemma keyword_summary_step: "step s (keyword_summary e cid pid kws s)"
  by (simp add: step_def core_def keyword_summary_def set_status_def Let_def)

lemma page_error_step: "step s (page_error cid p err s)"
  by (simp add: step_def core_def page_error_def set_status_def Let_def)

lemma page_error_status:
  "core (processing_status (page_error cid p err s)) = core (processing_status s)"
  "status_trace (page_error cid p err s) = status_trace s @ [processing_status (page_error cid p err s)]"
  by (simp_all add: core_def page_error_def set_status_def Let_def)

lemma log_scraped_step: "step s (log_scraped cid p d s)"
  by (simp add: step_same)

lemma fetch_and_store_step: "step s (fetch_and_store e cid p s)"
  by (simp add: step_def fetch_and_store_def page_error_status Let_def split: sum.splits option.splits)

lemma scrape_page_step: "step s (scrape_page e cid n i p s)"
proof -
  have "step (announce_page cid n i p s) (scrape_page e cid n i p s)"
    by (simp add: scrape_page_def fetch_and_store_step)
  then show ?thesis by (simp add: step_def)
qed

lemma check_page_step: "step s (check_page e cid kws im n p s)"
  by (simp add: step_same)

lemma running_core: "core a = core b \<Longrightarrow> running a = running b"
  by (simp add: core_def running_def)

lemma within_cap_core: "core a = core b \<Longrightarrow> within_cap a = within_cap b"
  by (simp add: core_def within_cap_def cap_def)

lemma cap_core: "core a = core b \<Longrightarrow> cap a = cap b"
  by (simp add: core_def cap_def)

lemma scraped_core: "core a = core b \<Longrightarrow> pages_scraped a = pages_scraped b"
  by (simp add: core_def)

lemma all_running_step: "step s s' \<Longrightarrow> all_running s \<Longrightarrow> all_running s'"
proof -
  assume st: "step s s'" and r: "all_running s"
  have c: "core (processing_status s') = core (processing_status s)" using st by (simp add: step_def)
  have "running (processing_status s')" using r by (simp add: all_running_def running_core [OF c])
  then show ?thesis using st r unfolding step_def all_running_def
    by (elim conjE disjE) simp_all
qed

lemma settled_step: "step s s' \<Longrightarrow> settled s \<Longrightarrow> within_cap (processing_status s) \<Longrightarrow> settled s'"
proof -
  assume st: "step s s'" and r: "settled s" and w: "within_cap (processing_status s)"
  have c: "core (processing_status s') = core (processing_status s)" using st by (simp add: step_def)
  have "within_cap (processing_status s')" using w by (simp add: within_cap_core [OF c])
  then show ?thesis using st r unfolding step_def settled_def
    by (elim conjE disjE) simp_all
qed

lemma budget_step:
  "step s s' \<Longrightarrow> budget k s \<Longrightarrow> length (scraped_pages s') + k' \<le> length (scraped_pages s) + k \<Longrightarrow> budget k' s'"
proof -
  assume st: "step s s'" and b: "budget k s"
     and le: "length (scraped_pages s') + k' \<le> length (scraped_pages s) + k"
  have c: "core (processing_status s') = core (processing_status s)" using st by (simp add: step_def)
  have "settled s'" using st b by (auto simp: budget_def intro: settled_step)
  moreover have "within_cap (processing_status s')" using b by (simp add: budget_def within_cap_core [OF c])
  moreover have "pages_scraped (processing_status s') = 0" using b by (simp add: budget_def scraped_core [OF c])
  moreover have "length (scraped_pages s') + k' \<le> cap (processing_status s')"
    using b le by (simp add: budget_def cap_core [OF c])
  ultimately show ?thesis by (simp add: budget_def)
qed

lemma quiet_ops_invariants [simp]:
  "all_running (send_log c t m s) = all_running s"
  "settled (send_log c t m s) = settled s"
  "budget k (send_log c t m s) = budget k s"
  "all_running (put_completion c pl s) = all_running s"
  "settled (put_completion c pl s) = settled s"
  "budget k (put_completion c pl s) = budget k s"
  "all_running (update_project_partial_sync e pid upd s) = all_running s"
  "settled (update_project_partial_sync e pid upd s) = settled s"
  "budget k (update_project_partial_sync e pid upd s) = budget k s"
  "all_running (snd (poll_interrupt e cid s)) = all_running s"
  "settled (snd (poll_interrupt e cid s)) = settled s"
  "budget k (snd (poll_interrupt e cid s)) = budget k s"
  "all_running (check_page e cid kws im n p s) = all_running s"
  "settled (check_page e cid kws im n p s) = settled s"
  "budget k (check_page e cid kws im n p s) = budget k s"
  "all_running (snd (announce cid u kws im s)) = all_running s"
  "settled (snd (announce cid u kws im s)) = settled s"
  "budget k (snd (announce cid u kws im s)) = budget k s"
  "all_running (announce_page cid n i p s) = all_running s"
  "settled (announce_page cid n i p s) = settled s"
  "budget k (announce_page cid n i p s) = budget k s"
  "all_running (log_scraped cid p d s) = all_running s"
  "settled (log_scraped cid p d s) = settled s"
  "budget k (log_scraped cid p d s) = budget k s"
  "all_running (record_match cid p ms meta ctx s) = all_running s"
  "settled (record_match cid p ms meta ctx s) = settled s"
  "budget k (record_match cid p ms meta ctx s) = budget k s"
  by (simp_all add: all_running_def settled_def budget_def)

lemma budget_settled: "budget k s \<Longrightarrow> settled s"
  by (simp add: budget_def)

lemma budget_less: "budget k s \<Longrightarrow> k' \<le> k \<Longrightarrow> budget k' s"
  by (simp add: budget_def)

subsection \<open>The ends of a run\<close>

lemma all_running_current: "all_running s \<Longrightarrow> running (processing_status s)"
  by (simp add: all_running_def)

lemma close_ended:
  "all_running s \<Longrightarrow> status_trace s' = status_trace s @ [processing_status s']
     \<Longrightarrow> is_terminal (extraction_status (processing_status s'))
     \<Longrightarrow> end_time (processing_status s') \<noteq> None \<Longrightarrow> ended_once s'"
  by (auto simp: ended_once_def all_running_def)

lemma close_settled:
  "settled s \<Longrightarrow> status_trace s' = status_trace s @ [processing_status s']
     \<Longrightarrow> within_cap (processing_status s') \<Longrightarrow> settled s'"
  by (simp add: settled_def)

lemma handle_interruption_none: "active_extractions s cid = None \<Longrightarrow> handle_interruption e cid pid s = s"
  by (simp add: handle_interruption_def)

lemma handle_interruption_status:
  assumes "active_extractions s cid \<noteq> None"
  shows "status_trace (handle_interruption e cid pid s)
           = status_trace s @ [processing_status (handle_interruption e cid pid s)]"
    and "extraction_status (processing_status (handle_interruption e cid pid s)) = STATUS_INTERRUPTED"
    and "end_time (processing_status (handle_interruption e cid pid s)) \<noteq> None"
    and "sitemap_status (processing_status (handle_interruption e cid pid s)) = sitemap_status (processing_status s)"
    and "pages_found (processing_status (handle_interruption e cid pid s)) = pages_found (processing_status s)"
    and "pages_scraped (processing_status (handle_interruption e cid pid s)) = pages_scraped (processing_status s)"
  using assms by (auto simp: handle_interruption_def Let_def set_status_def)

lemma finish_status:
  shows "status_trace (finish e cid pid kws s) = status_trace s @ [processing_status (finish e cid pid kws s)]"
    and "extraction_status (processing_status (finish e cid pid kws s)) = STATUS_COMPLETED"
    and "end_time (processing_status (finish e cid pid kws s)) \<noteq> None"
    and "sitemap_status (processing_status (finish e cid pid kws s)) = sitemap_status (processing_status s)"
    and "pages_found (processing_status (finish e cid pid kws s)) = pages_found (processing_status s)"
    and "pages_scraped (processing_status (finish e cid pid kws s)) = length (scraped_pages s)"
  by (simp_all add: finish_def Let_def set_status_def)

lemma error_handler_status:
  shows "status_trace (error_handler e cid pid exn s)
           = status_trace s @ [processing_status (error_handler e cid pid exn s)]"
    and "extraction_status (processing_status (error_handler e cid pid exn s)) = STATUS_ERROR"
    and "end_time (processing_status (error_handler e cid pid exn s)) \<noteq> None"
    and "sitemap_status (processing_status (error_handler e cid pid exn s)) = sitemap_status (processing_status s)"
    and "pages_found (processing_status (error_handler e cid pid exn s)) = pages_found (processing_status s)"
    and "pages_scraped (processing_status (error_handler e cid pid exn s)) = pages_scraped (processing_status s)"
  by (simp_all add: error_handler_def Let_def set_status_def split: option.splits)

lemma handle_interruption_ended:
  "all_running s \<Longrightarrow> active_extractions s cid \<noteq> None \<Longrightarrow> ended_once (handle_interruption e cid pid s)"
  by (rule close_ended) (simp_all add: handle_interruption_status is_terminal_def)

lemma finish_ended: "all_running s \<Longrightarrow> ended_once (finish e cid pid kws s)"
  by (rule close_ended) (simp_all add: finish_status is_terminal_def)

lemma error_handler_ended: "all_running s \<Longrightarrow> ended_once (error_handler e cid pid exn s)"
  by (rule close_ended) (simp_all add: error_handler_status is_terminal_def)

lemma handle_interruption_settled: "budget k s \<Longrightarrow> settled (handle_interruption e cid pid s)"
proof (cases "active_extractions s cid")
  case None
  assume "budget k s"
  then show ?thesis using None by (simp add: handle_interruption_none budget_def)
next
  case (Some en)
  assume b: "budget k s"
  show ?thesis
  proof (rule close_settled)
    show "settled s" using b by (simp add: budget_def)
    show "status_trace (handle_interruption e cid pid s)
           = status_trace s @ [processing_status (handle_interruption e cid pid s)]"
      using Some by (simp add: handle_interruption_status)
    show "within_cap (processing_status (handle_interruption e cid pid s))"
      using b Some by (simp add: budget_def within_cap_def cap_def handle_interruption_status)
  qed
qed

lemma finish_settled: "budget 0 s \<Longrightarrow> settled (finish e cid pid kws s)"
proof (rule close_settled)
  assume b: "budget 0 s"
  show "settled s" using b by (simp add: budget_def)
  show "status_trace (finish e cid pid kws s) = status_trace s @ [processing_status (finish e cid pid kws s)]"
    by (simp add: finish_status)
  show "within_cap (processing_status (finish e cid pid kws s))"
    using b by (auto simp: budget_def within_cap_def cap_def finish_status split: if_splits)
qed

lemma error_handler_settled: "budget k s \<Longrightarrow> settled (error_handler e cid pid exn s)"
proof (rule close_settled)
  assume b: "budget k s"
  show "settled s" using b by (simp add: budget_def)
  show "status_trace (error_handler e cid pid exn s)
          = status_trace s @ [processing_status (error_handler e cid pid exn s)]"
    by (simp add: error_handler_status)
  show "within_cap (processing_status (error_handler e cid pid exn s))"
    using b by (simp add: budget_def within_cap_def cap_def error_handler_status)
qed

subsection \<open>Polling\<close>

lemma poll_interrupt_fst:
  "fst (poll_interrupt e cid s) =
     (if interrupt_at e = Some (checks s) then active_extractions s cid \<noteq> None
      else should_interrupt cid (active_extractions s))"
  by (auto simp: poll_interrupt_def Let_def should_interrupt_def interrupt_extraction_def split: option.splits)

lemma poll_interrupt_flag:
  "should_interrupt cid (active_extractions (snd (poll_interrupt e cid s))) = fst (poll_interrupt e cid s)"
  by (simp add: poll_interrupt_def Let_def)

lemma poll_interrupt_registered:
  "(active_extractions (snd (poll_interrupt e cid s)) c = None) = (active_extractions s c = None)"
  by (auto simp: poll_interrupt_def Let_def interrupt_extraction_def split: option.splits)

lemma poll_interrupt_checks [simp]: "checks (snd (poll_interrupt e cid s)) = Suc (checks s)"
  by (simp add: poll_interrupt_def Let_def)

lemma flagged_registered: "should_interrupt cid ae \<Longrightarrow> ae cid \<noteq> None"
  by (auto simp: should_interrupt_def split: option.splits)

lemma filter_loop_Cons:
  "filter_loop e cid pid kws im n i (p # rest) s =
     (if fst (poll_interrupt e cid s) then
        (Return, handle_interruption e cid pid
           (send_log cid Warning (Fmt ''Filtering interrupted after checking {} pages'' [Num (int i)])
              (snd (poll_interrupt e cid s))))
      else filter_loop e cid pid kws im n (Suc i) rest
             (check_page e cid kws im n p (snd (poll_interrupt e cid s))))"
  by (simp split: prod.splits bool.splits)

lemma scrape_loop_Cons:
  "scrape_loop e cid pid n i (p # rest) s =
     (if fst (poll_interrupt e cid (scrape_page e cid n i p s)) then
        (Return, handle_interruption e cid pid
           (send_log cid Warning (Fmt ''Scraping interrupted after processing {} pages'' [Num (int (i + 1))])
              (snd (poll_interrupt e cid (scrape_page e cid n i p s)))))
      else scrape_loop e cid pid n (Suc i) rest (snd (poll_interrupt e cid (scrape_page e cid n i p s))))"
  by (simp split: prod.splits bool.splits)

declare filter_loop.simps(2) [simp del] scrape_loop.simps(2) [simp del]

subsection \<open>The loops\<close>

lemma filter_loop_running:
  "all_running s \<Longrightarrow>
   (case filter_loop e cid pid kws im n i pages s of
      (Continue, s') \<Rightarrow> all_running s' | (Return, s') \<Rightarrow> ended_once s')"
proof (induction pages arbitrary: s i)
  case Nil
  then show ?case by simp
next
  case (Cons p rest)
  let ?s1 = "snd (poll_interrupt e cid s)"
  have r1: "all_running ?s1" using Cons.prems by simp
  show ?case
  proof (cases "fst (poll_interrupt e cid s)")
    case True
    then have "active_extractions ?s1 cid \<noteq> None"
      using poll_interrupt_flag [of cid e s] by (auto dest: flagged_registered)
    then show ?thesis using True r1
      by (simp add: filter_loop_Cons handle_interruption_ended)
  next
    case False
    have "all_running (check_page e cid kws im n p ?s1)"
      using r1 by (rule all_running_step [OF check_page_step])
    from Cons.IH [OF this] show ?thesis using False by (simp add: filter_loop_Cons)
  qed
qed

lemma scrape_loop_running:
  "all_running s \<Longrightarrow>
   (case scrape_loop e cid pid n i pages s of
      (Continue, s') \<Rightarrow> all_running s' | (Return, s') \<Rightarrow> ended_once s')"
proof (induction pages arbitrary: s i)
  case Nil
  then show ?case by simp
next
  case (Cons p rest)
  let ?s0 = "scrape_page e cid n i p s"
  let ?s1 = "snd (poll_interrupt e cid ?s0)"
  have r0: "all_running ?s0" using Cons.prems by (rule all_running_step [OF scrape_page_step])
  then have r1: "all_running ?s1" by simp
  show ?case
  proof (cases "fst (poll_interrupt e cid ?s0)")
    case True
    then have "active_extractions ?s1 cid \<noteq> None"
      using poll_interrupt_flag [of cid e ?s0] by (auto dest: flagged_registered)
    then show ?thesis using True r1
      by (simp add: scrape_loop_Cons handle_interruption_ended)
  next
    case False
    from Cons.IH [OF r1] show ?thesis using False by (simp add: scrape_loop_Cons)
  qed
qed

subsection \<open>Discovery\<close>

lemma start_worker_running: "all_running (start_worker sys (initial_status t mode limit kws im km))"
  by (simp add: all_running_def start_worker_def initial_status_def running_def)

lemma start_worker_budget:
  "budget 1 (start_worker sys (initial_status t mode limit kws im km))"
  "sitemap_status (processing_status (start_worker sys (initial_status t mode limit kws im km))) \<noteq> ''success''"
  "filtered_pages (start_worker sys (initial_status t mode limit kws im km)) = []"
  by (simp_all add: budget_def settled_def within_cap_def cap_def start_worker_def initial_status_def)

lemma process_robots_sitemap_status [simp]:
  "sitemap_status (processing_status (process_robots e cid u s)) = sitemap_status (processing_status s)"
  using process_robots_step [of s e cid u] by (simp add: step_def core_def)

lemma process_sitemap_running: "all_running s \<Longrightarrow> all_running (snd (process_sitemap e cid u s))"
  by (auto simp: process_sitemap_def Let_def set_status_def all_running_def running_def split: sum.splits)

lemma process_sitemap_budget:
  assumes "budget 1 s" and "sitemap_status (processing_status s) \<noteq> ''success''"
  shows "budget (length (fst (process_sitemap e cid u s))) (snd (process_sitemap e cid u s))"
  using assms
  by (auto simp: process_sitemap_def Let_def set_status_def budget_def settled_def within_cap_def cap_def
        split: sum.splits)

subsection \<open>What one page adds\<close>

lemma check_page_adds:
  "filtered_pages (check_page e cid kws im n p s)
     = filtered_pages s @ (if fst (check_page_for_keywords e p kws im) then [p] else [])"
  "pages_with_keywords (check_page e cid kws im n p s)
     = pages_with_keywords s + (if fst (check_page_for_keywords e p kws im) then 1 else 0)"
  "pages_checked (check_page e cid kws im n p s) = Suc (pages_checked s)"
  "requests (check_page e cid kws im n p s) = requests s @ [KeywordGet p]"
  by (simp_all add: check_page_def Let_def record_match_def split: prod.splits)

lemma fetch_and_store_scraped:
  "length (scraped_pages (fetch_and_store e cid p s)) \<le> Suc (length (scraped_pages s))"
  by (simp add: fetch_and_store_def Let_def split: sum.splits option.splits)

lemma scrape_page_scraped:
  "length (scraped_pages (scrape_page e cid n i p s)) \<le> Suc (length (scraped_pages s))"
  using fetch_and_store_scraped [of e cid p "announce_page cid n i p s"] by (simp add: scrape_page_def)

lemma scrape_page_requests [simp]:
  "requests (scrape_page e cid n i p s) = requests s @ [ScrapeReq p]"
  by (simp add: scrape_page_def fetch_and_store_def Let_def split: sum.splits option.splits)

subsection \<open>The loops, continued\<close>

lemma filter_loop_budget:
  "budget k s \<Longrightarrow>
   (case filter_loop e cid pid kws im n i pages s of
      (Continue, s') \<Rightarrow> budget k s' | (Return, s') \<Rightarrow> settled s')"
proof (induction pages arbitrary: s i)
  case Nil
  then show ?case by simp
next
  case (Cons p rest)
  let ?s1 = "snd (poll_interrupt e cid s)"
  have b1: "budget k ?s1" using Cons.prems by simp
  show ?case
  proof (cases "fst (poll_interrupt e cid s)")
    case True
    then show ?thesis using b1
      by (simp add: filter_loop_Cons handle_interruption_settled)
  next
    case False
    have "budget k (check_page e cid kws im n p ?s1)" using b1 by simp
    from Cons.IH [OF this] show ?thesis using False by (simp add: filter_loop_Cons)
  qed
qed

lemma scrape_loop_budget:
  "budget (length pages) s \<Longrightarrow>
   (case scrape_loop e cid pid n i pages s of
      (Continue, s') \<Rightarrow> budget 0 s' | (Return, s') \<Rightarrow> settled s')"
proof (induction pages arbitrary: s i)
  case Nil
  then show ?case by simp
next
  case (Cons p rest)
  let ?s0 = "scrape_page e cid n i p s"
  let ?s1 = "snd (poll_interrupt e cid ?s0)"
  have "length (scraped_pages ?s0) + length rest \<le> length (scraped_pages s) + length (p # rest)"
    using scrape_page_scraped [of e cid n i p s] by simp
  with scrape_page_step Cons.prems have b0: "budget (length rest) ?s0"
    by (rule budget_step)
  then have b1: "budget (length rest) ?s1" by simp
  show ?case
  proof (cases "fst (poll_interrupt e cid ?s0)")
    case True
    then show ?thesis using b1
      by (simp add: scrape_loop_Cons handle_interruption_settled)
  next
    case False
    from Cons.IH [OF b1] show ?thesis using False by (simp add: scrape_loop_Cons)
  qed
qed

lemma filter_loop_filtered:
  "length (filtered_pages (snd (filter_loop e cid pid kws im n i pages s)))
     \<le> length (filtered_pages s) + length pages"
proof (induction pages arbitrary: s i)
  case Nil
  then show ?case by simp
next
  case (Cons p rest)
  let ?s1 = "snd (poll_interrupt e cid s)"
  show ?case
  proof (cases "fst (poll_interrupt e cid s)")
    case True
    then show ?thesis by (simp add: filter_loop_Cons)
  next
    case False
    have "length (filtered_pages (snd (filter_loop e cid pid kws im n (Suc i) rest (check_page e cid kws im n p ?s1))))
            \<le> length (filtered_pages (check_page e cid kws im n p ?s1)) + length rest"
      by (rule Cons.IH)
    then show ?thesis using False by (simp add: filter_loop_Cons check_page_adds split: if_splits)
  qed
qed

lemma filter_loop_scraped [simp]:
  "scraped_pages (snd (filter_loop e cid pid kws im n i pages s)) = scraped_pages s"
  by (induction pages arbitrary: s i) (simp_all add: filter_loop_Cons)

lemma py_take_length: "length (py_take k xs) \<le> length xs"
  by (simp add: py_take_def)

subsection \<open>Choosing the pages\<close>

lemma choose_pages_frame [simp]:
  "active_extractions (snd (choose_pages cid limit sp s)) = active_extractions s"
  "projects (snd (choose_pages cid limit sp s)) = projects s"
  "pages_db (snd (choose_pages cid limit sp s)) = pages_db s"
  "requests (snd (choose_pages cid limit sp s)) = requests s"
  "checks (snd (choose_pages cid limit sp s)) = checks s"
  "scraped_pages (snd (choose_pages cid limit sp s)) = scraped_pages s"
  "filtered_pages (snd (choose_pages cid limit sp s)) = filtered_pages s"
  "keyword_matches (snd (choose_pages cid limit sp s)) = keyword_matches s"
  "meta_info_extracted (snd (choose_pages cid limit sp s)) = meta_info_extracted s"
  "keyword_contexts (snd (choose_pages cid limit sp s)) = keyword_contexts s"
  "pages_with_keywords (snd (choose_pages cid limit sp s)) = pages_with_keywords s"
  "pages_checked (snd (choose_pages cid limit sp s)) = pages_checked s"
  "has_queue c (snd (choose_pages cid limit sp s)) = has_queue c s"
  "completions c (snd (choose_pages cid limit sp s)) = completions c s"
  by (simp_all add: choose_pages_def Let_def)

lemma choose_pages_step: "step s (snd (choose_pages cid limit sp s))"
  by (simp add: choose_pages_def Let_def step_def core_def set_status_def)

lemma choose_pages_fst:
  "fst (choose_pages cid limit sp s)
     = (if filtered_pages s \<noteq> [] then filtered_pages s
        else py_take (min limit (int (length sp))) sp)"
  by (simp add: choose_pages_def Let_def)

lemma filter_loop_runningD:
  "filter_loop e cid pid kws im n i pages s = (Continue, s') \<Longrightarrow> all_running s \<Longrightarrow> all_running s'"
  "filter_loop e cid pid kws im n i pages s = (Return, s') \<Longrightarrow> all_running s \<Longrightarrow> ended_once s'"
  using filter_loop_running [of s e cid pid kws im n i pages] by simp_all

lemma scrape_loop_runningD:
  "scrape_loop e cid pid n i pages s = (Continue, s') \<Longrightarrow> all_running s \<Longrightarrow> all_running s'"
  "scrape_loop e cid pid n i pages s = (Return, s') \<Longrightarrow> all_running s \<Longrightarrow> ended_once s'"
  using scrape_loop_running [of s e cid pid n i pages] by simp_all

lemma filter_loop_budgetD:
  "filter_loop e cid pid kws im n i pages s = (Continue, s') \<Longrightarrow> budget k s \<Longrightarrow> budget k s'"
  "filter_loop e cid pid kws im n i pages s = (Return, s') \<Longrightarrow> budget k s \<Longrightarrow> settled s'"
  using filter_loop_budget [of k s e cid pid kws im n i pages] by simp_all

lemma scrape_loop_budgetD:
  "scrape_loop e cid pid n i pages s = (Continue, s') \<Longrightarrow> budget (length pages) s \<Longrightarrow> budget 0 s'"
  "scrape_loop e cid pid n i pages s = (Return, s') \<Longrightarrow> budget (length pages) s \<Longrightarrow> settled s'"
  using scrape_loop_budget [of pages s e cid pid n i] by simp_all

lemma select_pages_running:
  assumes "all_running s"
  shows "case select_pages e cid pid limit kws im sp s of
           (Raised x, s') \<Rightarrow> all_running s'
         | (Returned, s') \<Rightarrow> ended_once s'
         | (Pages ps, s') \<Rightarrow> all_running s'"
proof (cases "kws = []")
  case True
  then show ?thesis using assms by (simp add: select_pages_def)
next
  case False
  show ?thesis
  proof (cases "join_keywords kws")
    case (Inl exn)
    then show ?thesis using assms False by (simp add: select_pages_def)
  next
    case (Inr strs)
    let ?s1 = "send_log cid Info (Fmt ''Filtering pages by keywords: {}'' [Strs strs]) s"
    let ?c = "py_take limit sp"
    obtain fl s2 where L: "filter_loop e cid pid kws im (length ?c) 0 ?c ?s1 = (fl, s2)"
      by (cases "filter_loop e cid pid kws im (length ?c) 0 ?c ?s1")
    have r1: "all_running ?s1" using assms by simp
    show ?thesis
    proof (cases fl)
      case Return
      then show ?thesis using L r1 False Inr
        by (simp add: select_pages_def Let_def filter_loop_runningD)
    next
      case Continue
      have "all_running s2" using L r1 Continue by (simp add: filter_loop_runningD)
      then have "all_running (keyword_summary e cid pid kws s2)"
        by (rule all_running_step [OF keyword_summary_step])
      then have "all_running (snd (choose_pages cid limit sp (keyword_summary e cid pid kws s2)))"
        by (rule all_running_step [OF choose_pages_step])
      then show ?thesis using L Continue False Inr
        by (simp add: select_pages_def Let_def split_beta)
    qed
  qed
qed

lemma select_pages_budget:
  assumes "budget (length sp) s" and "filtered_pages s = []"
  shows "case select_pages e cid pid limit kws im sp s of
           (Raised x, s') \<Rightarrow> budget 0 s'
         | (Returned, s') \<Rightarrow> settled s'
         | (Pages ps, s') \<Rightarrow> budget (length ps) s'"
proof (cases "kws = []")
  case True
  then show ?thesis using assms py_take_length [of limit sp]
    by (auto simp: select_pages_def intro: budget_less)
next
  case False
  show ?thesis
  proof (cases "join_keywords kws")
    case (Inl exn)
    then show ?thesis using assms False by (auto simp: select_pages_def intro: budget_less)
  next
    case (Inr strs)
    let ?s1 = "send_log cid Info (Fmt ''Filtering pages by keywords: {}'' [Strs strs]) s"
    let ?c = "py_take limit sp"
    obtain fl s2 where L: "filter_loop e cid pid kws im (length ?c) 0 ?c ?s1 = (fl, s2)"
      by (cases "filter_loop e cid pid kws im (length ?c) 0 ?c ?s1")
    have b1: "budget (length sp) ?s1" using assms by simp
    show ?thesis
    proof (cases fl)
      case Return
      then show ?thesis using L b1 False Inr
        by (simp add: select_pages_def Let_def filter_loop_budgetD)
    next
      case Continue
      let ?s3 = "keyword_summary e cid pid kws s2"
      let ?s4 = "snd (choose_pages cid limit sp ?s3)"
      have b2: "budget (length sp) s2" using L b1 Continue by (simp add: filter_loop_budgetD)
      have f2: "length (filtered_pages s2) \<le> length ?c"
        using filter_loop_filtered [of e cid pid kws im "length ?c" 0 ?c ?s1] L assms by simp
      have len: "length (fst (choose_pages cid limit sp ?s3)) \<le> length sp"
        using f2 py_take_length [of limit sp] py_take_length [of "min limit (int (length sp))" sp]
        by (simp add: choose_pages_fst)
      have "budget (length sp) ?s3" using keyword_summary_step b2
        by (rule budget_step) simp
      with choose_pages_step have "budget (length sp) ?s4"
        by (rule budget_step) simp
      then have "budget (length (fst (choose_pages cid limit sp ?s3))) ?s4"
        using len by (rule budget_less)
      then show ?thesis using L Continue False Inr
        by (simp add: select_pages_def Let_def split_beta)
    qed
  qed
qed

subsection \<open>The whole run\<close>

lemma announce_cases:
  "fst (announce cid u kws im s) = (if kws = [] then None else (case join_keywords kws of Inl x \<Rightarrow> Some x | Inr strs \<Rightarrow> None))"
  by (simp add: announce_def Let_def split: sum.splits)

lemma process_robots_budget:
  assumes "budget k s"
  shows "budget k (process_robots e cid u s)"
  by (rule budget_step [OF process_robots_step assms]) simp

lemma extraction_body_running:
  assumes "all_running s"
  shows "case extraction_body e u pid cid limit kws im s of
           (Some x, s') \<Rightarrow> all_running s' | (None, s') \<Rightarrow> ended_once s'"
proof -
  obtain x s1 where A: "announce cid u kws im s = (x, s1)" by (cases "announce cid u kws im s")
  have s1: "s1 = snd (announce cid u kws im s)" using A by simp
  have r1: "all_running s1" using assms by (simp add: s1)
  let ?s2 = "process_robots e cid u s1"
  obtain sp s3 where S: "process_sitemap e cid u ?s2 = (sp, s3)" by (cases "process_sitemap e cid u ?s2")
  have r3: "all_running s3"
    using process_sitemap_running [of ?s2 e cid u] all_running_step [OF process_robots_step r1] S by simp
  obtain sel s4 where P: "select_pages e cid pid limit kws im sp s3 = (sel, s4)"
    by (cases "select_pages e cid pid limit kws im sp s3")
  note sel = select_pages_running [OF r3, of e cid pid limit kws im sp]
  show ?thesis
  proof (cases x)
    case (Some exn)
    then show ?thesis using A r1 by (simp add: extraction_body_def)
  next
    case None
    show ?thesis
    proof (cases sel)
      case (Raised exn)
      then show ?thesis using A None S P sel by (simp add: extraction_body_def)
    next
      case Returned
      then show ?thesis using A None S P sel by (simp add: extraction_body_def)
    next
      case (Pages ps)
      let ?s5 = "send_log cid Info (Fmt ''Starting to scrape {} pages'' [Num (int (length ps))]) s4"
      obtain fl s6 where L: "scrape_loop e cid pid (length ps) 0 ps ?s5 = (fl, s6)"
        by (cases "scrape_loop e cid pid (length ps) 0 ps ?s5")
      have r5: "all_running ?s5" using sel P Pages by simp
      show ?thesis
      proof (cases fl)
        case Continue
        then show ?thesis using A None S P Pages L r5
          by (simp add: extraction_body_def scrape_loop_runningD finish_ended)
      next
        case Return
        then show ?thesis using A None S P Pages L r5
          by (simp add: extraction_body_def scrape_loop_runningD)
      qed
    qed
  qed
qed

lemma extraction_body_budget:
  assumes "budget 1 s" and "sitemap_status (processing_status s) \<noteq> ''success''" and "filtered_pages s = []"
  shows "case extraction_body e u pid cid limit kws im s of
           (Some x, s') \<Rightarrow> (\<exists>k. budget k s') | (None, s') \<Rightarrow> settled s'"
proof -
  obtain x s1 where A: "announce cid u kws im s = (x, s1)" by (cases "announce cid u kws im s")
  have s1: "s1 = snd (announce cid u kws im s)" using A by simp
  have b1: "budget 1 s1" using assms(1) by (simp add: s1)
  let ?s2 = "process_robots e cid u s1"
  have b2: "budget 1 ?s2" using b1 by (rule process_robots_budget)
  have n2: "sitemap_status (processing_status ?s2) \<noteq> ''success''" using assms(2) by (simp add: s1)
  obtain sp s3 where S: "process_sitemap e cid u ?s2 = (sp, s3)" by (cases "process_sitemap e cid u ?s2")
  have b3: "budget (length sp) s3" using process_sitemap_budget [OF b2 n2, of e cid u] S by simp
  have s3: "s3 = snd (process_sitemap e cid u ?s2)" using S by simp
  have f3: "filtered_pages s3 = []" using assms(3) by (simp add: s3 s1)
  obtain sel s4 where P: "select_pages e cid pid limit kws im sp s3 = (sel, s4)"
    by (cases "select_pages e cid pid limit kws im sp s3")
  note sel = select_pages_budget [OF b3 f3, of e cid pid limit kws im]
  show ?thesis
  proof (cases x)
    case (Some exn)
    then show ?thesis using A b1 by (auto simp: extraction_body_def)
  next
    case None
    show ?thesis
    proof (cases sel)
      case (Raised exn)
      then show ?thesis using A None S P sel by (auto simp: extraction_body_def)
    next
      case Returned
      then show ?thesis using A None S P sel by (simp add: extraction_body_def)
    next
      case (Pages ps)
      let ?s5 = "send_log cid Info (Fmt ''Starting to scrape {} pages'' [Num (int (length ps))]) s4"
      obtain fl s6 where L: "scrape_loop e cid pid (length ps) 0 ps ?s5 = (fl, s6)"
        by (cases "scrape_loop e cid pid (length ps) 0 ps ?s5")
      have b5: "budget (length ps) ?s5" using sel P Pages by simp
      show ?thesis
      proof (cases fl)
        case Continue
        then show ?thesis using A None S P Pages L b5
          by (simp add: extraction_body_def scrape_loop_budgetD finish_settled)
      next
        case Return
        then show ?thesis using A None S P Pages L b5
          by (simp add: extraction_body_def scrape_loop_budgetD)
      qed
    qed
  qed
qed

lemma run_ended_once: "ended_once (run_extraction_thread e u pid cid email mode limit kws im sys)"
  using extraction_body_running [OF start_worker_running, of e u pid cid limit kws im sys "clock sys" mode limit kws im None]
  by (auto simp: run_extraction_thread_def error_handler_ended split: prod.splits option.splits)

lemma run_settled: "settled (run_extraction_thread e u pid cid email mode limit kws im sys)"
  using extraction_body_budget [OF start_worker_budget, of e u pid cid limit kws im sys "clock sys" mode limit kws im None]
  by (auto simp: run_extraction_thread_def error_handler_settled split: prod.splits option.splits)

subsection \<open>Fields of the status after a step\<close>

lemma step_fields:
  assumes "step s s'"
  shows "extraction_status (processing_status s') = extraction_status (processing_status s)"
    and "end_time (processing_status s') = end_time (processing_status s)"
    and "sitemap_status (processing_status s') = sitemap_status (processing_status s)"
    and "pages_found (processing_status s') = pages_found (processing_status s)"
    and "pages_scraped (processing_status s') = pages_scraped (processing_status s)"
  using assms by (simp_all add: step_def core_def)

lemmas process_robots_fields [simp] = step_fields [OF process_robots_step]
lemmas keyword_summary_fields [simp] = step_fields [OF keyword_summary_step]
lemmas page_error_fields [simp] = step_fields [OF page_error_step]
lemmas fetch_and_store_fields [simp] = step_fields [OF fetch_and_store_step]
lemmas scrape_page_fields [simp] = step_fields [OF scrape_page_step]
lemmas choose_pages_fields [simp] = step_fields [OF choose_pages_step]

lemma process_sitemap_fst:
  "fst (process_sitemap e cid u s) = (case sitemap e u of Inr (p # ps) \<Rightarrow> p # ps | _ \<Rightarrow> [u])"
  by (simp add: process_sitemap_def Let_def split: sum.splits list.splits)

lemma process_sitemap_fields:
  "extraction_status (processing_status (snd (process_sitemap e cid u s))) = extraction_status (processing_status s)"
  "end_time (processing_status (snd (process_sitemap e cid u s))) = end_time (processing_status s)"
  "pages_scraped (processing_status (snd (process_sitemap e cid u s))) = pages_scraped (processing_status s)"
  "sitemap_status (processing_status (snd (process_sitemap e cid u s)))
     = (case sitemap e u of Inr (p # ps) \<Rightarrow> ''success'' | Inr [] \<Rightarrow> ''no_pages'' | Inl err \<Rightarrow> ''error'')"
  "pages_found (processing_status (snd (process_sitemap e cid u s)))
     = (case sitemap e u of Inr (p # ps) \<Rightarrow> length (p # ps) | _ \<Rightarrow> pages_found (processing_status s))"
  by (simp_all add: process_sitemap_def Let_def set_status_def split: sum.splits list.splits)

lemma requests_discovery [simp]:
  "requests (process_robots e cid u s) = requests s @ [RobotsReq u]"
  "requests (snd (process_sitemap e cid u s)) = requests s @ [SitemapReq u]"
  by (simp_all add: process_robots_def process_sitemap_def Let_def split: sum.splits bool.splits)

lemma start_worker_fields [simp]:
  "active_extractions (start_worker sys ps) = active_extractions sys"
  "projects (start_worker sys ps) = projects sys"
  "pages_db (start_worker sys ps) = pages_db sys"
  "requests (start_worker sys ps) = requests sys"
  "checks (start_worker sys ps) = checks sys"
  "consumers (start_worker sys ps) = consumers sys"
  "processing_status (start_worker sys ps) = ps"
  "status_trace (start_worker sys ps) = [ps]"
  "scraped_pages (start_worker sys ps) = []"
  "filtered_pages (start_worker sys ps) = []"
  "pages_with_keywords (start_worker sys ps) = 0"
  "pages_checked (start_worker sys ps) = 0"
  "keyword_matches (start_worker sys ps) = []"
  "meta_info_extracted (start_worker sys ps) = []"
  "has_queue c (start_worker sys ps) = has_queue c sys"
  "kinds c (start_worker sys ps) = kinds c sys"
  "completions c (start_worker sys ps) = completions c sys"
  by (simp_all add: start_worker_def has_queue_def kinds_def completions_def)


lemma poll_quiet:
  "interrupt_at e = None \<Longrightarrow> fst (poll_interrupt e cid s) = should_interrupt cid (active_extractions s)"
  "interrupt_at e = None \<Longrightarrow> active_extractions (snd (poll_interrupt e cid s)) = active_extractions s"
  by (simp_all add: poll_interrupt_def Let_def)

lemma fetch_and_store_ok:
  assumes "scrape_website e p = Inr d" and "\<And>x. store_in_mongodb e x = None"
  shows "scraped_pages (fetch_and_store e cid p s) = scraped_pages s @ [p]"
    and "length (pages_db (fetch_and_store e cid p s)) = Suc (length (pages_db s))"
    and "processing_status (fetch_and_store e cid p s) = processing_status s"
    and "status_trace (fetch_and_store e cid p s) = status_trace s"
  using assms by (simp_all add: fetch_and_store_def Let_def)

lemma scrape_page_ok:
  assumes "scrape_website e p = Inr d" and "\<And>x. store_in_mongodb e x = None"
  shows "scraped_pages (scrape_page e cid n i p s) = scraped_pages s @ [p]"
    and "length (pages_db (scrape_page e cid n i p s)) = Suc (length (pages_db s))"
    and "processing_status (scrape_page e cid n i p s) = processing_status s"
    and "status_trace (scrape_page e cid n i p s) = status_trace s"
  using fetch_and_store_ok [OF assms] by (simp_all add: scrape_page_def)

lemma consumer_step_none [simp]: "consumer_exits e = None \<Longrightarrow> consumer_step e p cid s = s"
  by (simp add: consumer_step_def)

lemma consumer_exit_queue:
  "has_queue c (consumer_exit cid s)
     = (has_queue c s \<and> \<not> (c = cid \<and> cid \<in> set (consumers s)
          \<and> (case active_extractions s cid of None \<Rightarrow> True | Some en \<Rightarrow> is_terminal (status en))))"
  by (simp add: consumer_exit_def has_queue_def)

text \<open>
  The messages of an interruption: the warning and the completion message when the consumer
  stays, neither when it has left before the warning.
\<close>

lemma handle_interruption_queue:
  assumes "active_extractions s cid \<noteq> None" and "consumer_exits e = None"
  shows "has_queue c (handle_interruption e cid pid s) = has_queue c s"
    and "kinds cid (handle_interruption e cid pid s)
           = kinds cid s @ (if has_queue cid s then [Warning, Completion] else [])"
  using assms by (auto simp: handle_interruption_def Let_def)

lemma consumer_exit_fires:
  assumes "cid \<in> set (consumers s)" and "active_extractions s cid = Some en"
      and "is_terminal (status en)"
  shows "message_queues (consumer_exit cid s) cid = None"
    and "active_extractions (consumer_exit cid s) cid = None"
  using assms by (simp_all add: consumer_exit_def)

lemma no_queue_no_message:
  "message_queues s cid = None \<Longrightarrow> send_log cid t m s = s"
  "message_queues s cid = None \<Longrightarrow> put_completion cid pl s = s"
  by (simp_all add: send_log_def put_completion_def)

lemma handle_interruption_overtaken:
  assumes "active_extractions s cid \<noteq> None" and "consumer_exits e = Some p"
      and "cid \<in> set (consumers s)"
  shows "\<not> has_queue cid (handle_interruption e cid pid s)"
    and "active_extractions (handle_interruption e cid pid s) cid = None"
proof -
  obtain en where en: "active_extractions s cid = Some en" using assms(1) by auto
  let ?en = "en\<lparr>status := STATUS_INTERRUPTED, last_updated := clock s\<rparr>"
  let ?s1 = "s\<lparr>active_extractions := (active_extractions s)(cid \<mapsto> ?en), clock := Suc (clock s)\<rparr>"
  let ?ps = "(processing_status ?s1)\<lparr>extraction_status := STATUS_INTERRUPTED, end_time := Some (clock ?s1)\<rparr>"
  let ?s2 = "update_project_partial_sync e pid [Set_processing_status ?ps]
               (set_status ?ps (?s1\<lparr>clock := Suc (clock ?s1)\<rparr>))"
  let ?s3 = "send_log cid Warning (Fmt ''Extraction interrupted by user request'' []) ?s2"
  let ?pl = "Json pid (pages_found ?ps) (pages_scraped ?ps) (Some STATUS_INTERRUPTED)"
  have t: "is_terminal (status ?en)" by (simp add: is_terminal_def)
  have c2: "cid \<in> set (consumers ?s2)" "active_extractions ?s2 cid = Some ?en"
    using assms(3) by simp_all
  have c3: "cid \<in> set (consumers ?s3)" "active_extractions ?s3 cid = Some ?en"
    using assms(3) by simp_all
  have H: "handle_interruption e cid pid s
             = (case p of Before_warning \<Rightarrow> consumer_exit cid ?s2
                | Before_completion \<Rightarrow> consumer_exit cid ?s3)"
  proof (cases p)
    case Before_warning
    then show ?thesis
      using en assms(2) consumer_exit_fires(1) [OF c2 t]
      by (simp add: handle_interruption_def Let_def consumer_step_def no_queue_no_message)
  next
    case Before_completion
    then show ?thesis
      using en assms(2) consumer_exit_fires(1) [OF c3 t]
      by (simp add: handle_interruption_def Let_def consumer_step_def no_queue_no_message)
  qed
  show "\<not> has_queue cid (handle_interruption e cid pid s)"
    unfolding H using consumer_exit_fires(1) [OF c2 t] consumer_exit_fires(1) [OF c3 t]
    by (cases p) (simp_all add: has_queue_def)
  show "active_extractions (handle_interruption e cid pid s) cid = None"
    unfolding H using consumer_exit_fires(2) [OF c2 t] consumer_exit_fires(2) [OF c3 t]
    by (cases p) simp_all
qed

lemma no_queue_no_kinds: "\<not> has_queue c s \<Longrightarrow> kinds c s = [] \<and> completions c s = 0"
  by (simp add: has_queue_def kinds_def completions_def)

lemma finish_queue:
  "has_queue c (finish e cid pid kws s) = has_queue c s"
  "kinds cid (finish e cid pid kws s) = kinds cid s @ (if has_queue cid s then [Info, Completion] else [])"
  by (simp_all add: finish_def Let_def)

lemma error_handler_queue:
  "has_queue c (error_handler e cid pid exn s) = has_queue c s"
  "kinds cid (error_handler e cid pid exn s) = kinds cid s @ (if has_queue cid s then [Error] else [])"
  "completions c (error_handler e cid pid exn s) = completions c s"
  by (simp_all add: error_handler_def Let_def split: option.splits)

lemma handle_interruption_registry:
  assumes "consumer_exits e = None"
  shows "(active_extractions (handle_interruption e cid pid s) c = None) = (active_extractions s c = None)"
    and "map_option status (active_extractions (handle_interruption e cid pid s) cid)
           = map_option (\<lambda>_. STATUS_INTERRUPTED) (active_extractions s cid)"
  using assms by (auto simp: handle_interruption_def Let_def split: option.splits)

lemma handle_interruption_stored:
  assumes "active_extractions s cid \<noteq> None" and "db_up e" and "projects s pid = Some p"
  shows "projects (handle_interruption e cid pid s) pid
           = Some (p\<lparr>stored_status := processing_status (handle_interruption e cid pid s)\<rparr>)"
  using assms by (auto simp: handle_interruption_def Let_def set_status_def update_project_partial_sync_def)

subsection \<open>Concrete states\<close>

lemma submitted_fields:
  "active_extractions (submitted kws) ''job1''
     = Some \<lparr>ex_project_id = ''p1'', status = STATUS_RUNNING, interrupt_requested = False, last_updated = 2\<rparr>"
  "has_queue ''job1'' (submitted kws)"
  "kinds ''job1'' (submitted kws) = []"
  "requests (submitted kws) = []"
  "checks (submitted kws) = 0"
  "consumers (submitted kws) = [''job1'']"
  "pages_db (submitted kws) = []"
  "map_option site_scraped_pages (projects (submitted kws) ''p1'') = Some []"
  "map_option (pages_scraped \<circ> stored_status) (projects (submitted kws) ''p1'') = Some 0"
  "\<exists>z. projects (submitted kws) ''p1'' = Some z"
  "message_queues (submitted kws) ''job1'' = Some []"
  by (simp_all add: submitted_def add_project_with_scraping_def Let_def idle_system_def has_queue_def
        kinds_def initial_status_def)

lemma no_sitemap_fields:
  "robots no_sitemap = (\<lambda>u. Inr True)"
  "sitemap no_sitemap = (\<lambda>u. Inl ''no sitemap'')"
  "fetch_page no_sitemap = (\<lambda>u. Inr doc_bar)"
  "scrape_website no_sitemap = (\<lambda>u. Inr (page_of u))"
  "store_in_mongodb no_sitemap x = None"
  "db_up no_sitemap"
  "interrupt_at no_sitemap = None"
  by (simp_all add: no_sitemap_def)

lemma site_fields:
  "robots site = (\<lambda>u. Inr True)"
  "sitemap site = (\<lambda>u. Inr [''http://x.org/a'', ''http://x.org/b''])"
  "fetch_page site = (\<lambda>u. if u = ''http://x.org/a'' then Inr doc_foo else Inl ''timed out'')"
  "scrape_website site = (\<lambda>u. Inr (page_of u))"
  "store_in_mongodb site x = None"
  "db_up site"
  "interrupt_at site = None"
  "consumer_exits site = None"
  by (simp_all add: site_def)

lemmas run_simps = run_extraction_thread_def extraction_body_def select_pages_def announce_def
  Let_def split_beta process_sitemap_fst process_sitemap_fields py_take_def scrape_loop_Cons
  poll_quiet should_interrupt_def submitted_fields finish_status initial_status_def

subsection \<open>The end of a job\<close>

text \<open>
  C9. In every run of the worker the status takes a sequence of values of which all but
  the last are \<open>running\<close> with \<open>end_time\<close> unset, and the last, the final status, is
  terminal with \<open>end_time\<close> set: \<open>end_time\<close> is set exactly when the state is terminal,
  and it is assigned once, by the path that ends the job.
\<close>

theorem end_time_set_once:
  "\<exists>rs. status_trace (run_extraction_thread e u pid cid email mode limit kws im sys)
          = rs @ [processing_status (run_extraction_thread e u pid cid email mode limit kws im sys)]
     \<and> rs \<noteq> []
     \<and> (\<forall>ps \<in> set rs. extraction_status ps = STATUS_RUNNING \<and> end_time ps = None)
     \<and> is_terminal (extraction_status
          (processing_status (run_extraction_thread e u pid cid email mode limit kws im sys)))
     \<and> end_time (processing_status (run_extraction_thread e u pid cid email mode limit kws im sys))
          \<noteq> None"
  using run_ended_once [of e u pid cid email mode limit kws im sys]
  by (simp add: ended_once_def running_def)

theorem end_time_set_once_witness:
  "extraction_status (processing_status (run_extraction_thread no_sitemap ''http://x.org'' ''p1''
      ''job1'' ''ann@x.org'' ''limited'' 5 [] True (submitted []))) = STATUS_COMPLETED
   \<and> (\<exists>rs. status_trace (run_extraction_thread no_sitemap ''http://x.org'' ''p1''
              ''job1'' ''ann@x.org'' ''limited'' 5 [] True (submitted []))
            = rs @ [processing_status (run_extraction_thread no_sitemap ''http://x.org'' ''p1''
                      ''job1'' ''ann@x.org'' ''limited'' 5 [] True (submitted []))]
          \<and> rs \<noteq> []
          \<and> (\<forall>ps \<in> set rs. extraction_status ps = STATUS_RUNNING \<and> end_time ps = None)
          \<and> end_time (processing_status (run_extraction_thread no_sitemap ''http://x.org'' ''p1''
                ''job1'' ''ann@x.org'' ''limited'' 5 [] True (submitted []))) \<noteq> None)"
proof -
  have "extraction_status (processing_status (run_extraction_thread no_sitemap ''http://x.org'' ''p1''
      ''job1'' ''ann@x.org'' ''limited'' 5 [] True (submitted []))) = STATUS_COMPLETED"
    by (simp add: run_simps no_sitemap_fields)
  then show ?thesis
    using end_time_set_once [of no_sitemap "''http://x.org''" "''p1''" "''job1''" "''ann@x.org''"
            "''limited''" 5 "[]" True "submitted []"]
    by auto
qed

subsection \<open>Pages scraped and pages found\<close>

text \<open>
  C10, as stated, fails: without a sitemap \<open>pages_found\<close> stays 0, the worker scrapes the
  target URL, and the job completes with \<open>pages_scraped = 1\<close>.
\<close>

theorem scraped_exceeds_found_counterexample:
  "sitemap_status (processing_status (run_extraction_thread no_sitemap ''http://x.org'' ''p1''
      ''job1'' ''ann@x.org'' ''limited'' 5 [] True (submitted []))) = ''error''
   \<and> pages_found (processing_status (run_extraction_thread no_sitemap ''http://x.org'' ''p1''
      ''job1'' ''ann@x.org'' ''limited'' 5 [] True (submitted []))) = 0
   \<and> pages_scraped (processing_status (run_extraction_thread no_sitemap ''http://x.org'' ''p1''
      ''job1'' ''ann@x.org'' ''limited'' 5 [] True (submitted []))) = 1"
  by (simp add: run_simps no_sitemap_fields
        scrape_page_ok [OF no_sitemap_fields(4) [THEN fun_cong] no_sitemap_fields(5)])

text \<open>
  C10, amended. At every point of a run, \<open>pages_scraped \<le> pages_found\<close> when the
  sitemap gave pages (\<open>sitemap_status = success\<close>); otherwise \<open>pages_found\<close> is 0 and
  \<open>pages_scraped\<close> is at most 1, the target URL.
\<close>

theorem scraped_within_found:
  "\<forall>ps \<in> set (status_trace (run_extraction_thread e u pid cid email mode limit kws im sys)).
     (sitemap_status ps = ''success'' \<longrightarrow> pages_scraped ps \<le> pages_found ps)
     \<and> (sitemap_status ps \<noteq> ''success'' \<longrightarrow> pages_found ps = 0 \<and> pages_scraped ps \<le> 1)"
  using run_settled [of e u pid cid email mode limit kws im sys]
  by (auto simp: settled_def within_cap_def cap_def split: if_splits)

theorem scraped_within_found_witness:
  "processing_status (run_extraction_thread site ''http://x.org'' ''p1''
      ''job1'' ''ann@x.org'' ''limited'' 5 [] True (submitted []))
     \<in> set (status_trace (run_extraction_thread site ''http://x.org'' ''p1''
      ''job1'' ''ann@x.org'' ''limited'' 5 [] True (submitted [])))
   \<and> sitemap_status (processing_status (run_extraction_thread site ''http://x.org'' ''p1''
      ''job1'' ''ann@x.org'' ''limited'' 5 [] True (submitted []))) = ''success''
   \<and> pages_found (processing_status (run_extraction_thread site ''http://x.org'' ''p1''
      ''job1'' ''ann@x.org'' ''limited'' 5 [] True (submitted []))) = 2
   \<and> pages_scraped (processing_status (run_extraction_thread site ''http://x.org'' ''p1''
      ''job1'' ''ann@x.org'' ''limited'' 5 [] True (submitted [])))
       \<le> pages_found (processing_status (run_extraction_thread site ''http://x.org'' ''p1''
      ''job1'' ''ann@x.org'' ''limited'' 5 [] True (submitted [])))"
proof -
  let ?R = "run_extraction_thread site ''http://x.org'' ''p1''
      ''job1'' ''ann@x.org'' ''limited'' 5 [] True (submitted [])"
  have m: "processing_status ?R \<in> set (status_trace ?R)"
    using run_ended_once [of site "''http://x.org''" "''p1''" "''job1''" "''ann@x.org''"
            "''limited''" 5 "[]" True "submitted []"]
    by (auto simp: ended_once_def)
  have s: "sitemap_status (processing_status ?R) = ''success''" "pages_found (processing_status ?R) = 2"
    by (simp_all add: run_simps site_fields)
  show ?thesis
    using m s scraped_within_found [of site "''http://x.org''" "''p1''" "''job1''" "''ann@x.org''"
            "''limited''" 5 "[]" True "submitted []"]
    by auto
qed

subsection \<open>Interruption observed at the first check\<close>

lemma completions_handle_interruption:
  "active_extractions s cid \<noteq> None \<Longrightarrow> consumer_exits e = None \<Longrightarrow>
   completions cid (handle_interruption e cid pid s) = completions cid s + (if has_queue cid s then 1 else 0)"
  by (simp add: completions_def handle_interruption_queue)

lemma completions_finish:
  "completions cid (finish e cid pid kws s) = completions cid s + (if has_queue cid s then 1 else 0)"
  by (simp add: completions_def finish_queue)

lemma handle_interruption_project:
  assumes "active_extractions s cid \<noteq> None"
  shows "map_option site_scraped_pages (projects (handle_interruption e cid pid s) pid)
           = map_option site_scraped_pages (projects s pid)"
    and "db_up e \<Longrightarrow> map_option (pages_scraped \<circ> stored_status) (projects (handle_interruption e cid pid s) pid)
           = map_option (\<lambda>_. pages_scraped (processing_status s)) (projects s pid)"
    and "db_up e \<Longrightarrow> map_option (extraction_status \<circ> stored_status) (projects (handle_interruption e cid pid s) pid)
           = map_option (\<lambda>_. STATUS_INTERRUPTED) (projects s pid)"
  using assms
  by (auto simp: handle_interruption_def Let_def set_status_def update_project_partial_sync_def
        split: option.splits)

lemma error_handler_registry:
  "map_option status (active_extractions (error_handler e cid pid exn s) cid)
     = map_option (\<lambda>_. STATUS_ERROR) (active_extractions s cid)"
  by (auto simp: error_handler_def Let_def split: option.splits)

lemma py_take_Cons: "1 \<le> limit \<Longrightarrow> py_take limit (p # ps) = p # take (nat limit - 1) ps"
  by (cases "nat limit") (simp_all add: py_take_def)

lemma process_sitemap_nonempty: "\<exists>p ps. fst (process_sitemap e cid u s) = p # ps"
  by (simp add: process_sitemap_fst split: sum.splits list.splits)

lemma poll_requested:
  "should_interrupt cid (active_extractions s)
     \<or> (interrupt_at e = Some (checks s) \<and> active_extractions s cid \<noteq> None)
   \<Longrightarrow> fst (poll_interrupt e cid s)"
  by (auto simp: poll_interrupt_fst dest: flagged_registered)

lemma registered_after_poll:
  "fst (poll_interrupt e cid s) \<Longrightarrow> active_extractions (snd (poll_interrupt e cid s)) cid \<noteq> None"
  using poll_interrupt_flag [of cid e s] by (auto dest: flagged_registered)

text \<open>
  A request that the worker sees at its first check: made before the worker starts, or
  between its start and that check.
\<close>

lemma extraction_body_interrupted_early:
  assumes fl: "should_interrupt cid (active_extractions s)
                 \<or> (interrupt_at e = Some (checks s) \<and> active_extractions s cid \<noteq> None)"
      and lim: "1 \<le> limit"
      and ok: "kws = [] \<or> (\<exists>strs. join_keywords kws = Inr strs)"
  shows "fst (extraction_body e u pid cid limit kws im s) = None"
    and "extraction_status (processing_status (snd (extraction_body e u pid cid limit kws im s)))
           = STATUS_INTERRUPTED"
    and "pages_scraped (processing_status (snd (extraction_body e u pid cid limit kws im s)))
           = pages_scraped (processing_status s)"
    and "consumer_exits e = None \<Longrightarrow> has_queue cid s \<Longrightarrow>
         kinds cid (snd (extraction_body e u pid cid limit kws im s)) \<noteq> [] \<and>
         last (kinds cid (snd (extraction_body e u pid cid limit kws im s))) = Completion"
    and "consumer_exits e = None \<Longrightarrow>
         completions cid (snd (extraction_body e u pid cid limit kws im s))
           = completions cid s + (if has_queue cid s then 1 else 0)"
    and "requests (snd (extraction_body e u pid cid limit kws im s))
           = requests s @ [RobotsReq u, SitemapReq u]
               @ (if kws = [] then [ScrapeReq (case sitemap e u of Inr (p # ps) \<Rightarrow> p | _ \<Rightarrow> u)] else [])"
    and "kws \<noteq> [] \<Longrightarrow> scraped_pages (snd (extraction_body e u pid cid limit kws im s)) = scraped_pages s"
    and "consumer_exits e = Some ov \<Longrightarrow> cid \<in> set (consumers s) \<Longrightarrow>
         \<not> has_queue cid (snd (extraction_body e u pid cid limit kws im s))"
proof -
  let ?s1 = "snd (announce cid u kws im s)"
  let ?s3 = "snd (process_sitemap e cid u (process_robots e cid u ?s1))"
  have a: "fst (announce cid u kws im s) = None" using ok by (auto simp: announce_cases)
  obtain p ps where sp: "fst (process_sitemap e cid u (process_robots e cid u ?s1)) = p # ps"
    using process_sitemap_nonempty by blast
  have hd: "(case sitemap e u of Inr (p # ps) \<Rightarrow> p | _ \<Rightarrow> u) = p"
    using sp by (simp add: process_sitemap_fst split: sum.splits list.splits)
  have cand: "py_take limit (p # ps) = p # take (nat limit - 1) ps" using lim by (rule py_take_Cons)
  have "\<exists>S. extraction_body e u pid cid limit kws im s = (None, handle_interruption e cid pid S)
          \<and> active_extractions S cid \<noteq> None
          \<and> has_queue cid S = has_queue cid s
          \<and> completions cid S = completions cid s
          \<and> consumers S = consumers s
          \<and> pages_scraped (processing_status S) = pages_scraped (processing_status s)
          \<and> requests S = requests s @ [RobotsReq u, SitemapReq u] @ (if kws = [] then [ScrapeReq p] else [])
          \<and> (kws \<noteq> [] \<longrightarrow> scraped_pages S = scraped_pages s)"
  proof (cases "kws = []")
    case True
    let ?s5 = "send_log cid Info (Fmt ''Starting to scrape {} pages'' [Num (int (length (py_take limit (p # ps))))]) ?s3"
    let ?n = "length (py_take limit (p # ps))"
    let ?s6 = "scrape_page e cid ?n 0 p ?s5"
    have f: "fst (poll_interrupt e cid ?s6)" using fl by (intro poll_requested) simp
    let ?S = "send_log cid Warning (Fmt ''Scraping interrupted after processing {} pages'' [Num (int (0 + 1))])
                (snd (poll_interrupt e cid ?s6))"
    have "extraction_body e u pid cid limit kws im s = (None, handle_interruption e cid pid ?S)"
      using True a sp f
      by (simp add: extraction_body_def split_beta select_pages_def cand scrape_loop_Cons)
    moreover have "active_extractions ?S cid \<noteq> None" using registered_after_poll [OF f] by simp
    ultimately show ?thesis using True by (intro exI [of _ ?S]) (simp add: process_sitemap_fields)
  next
    case False
    then obtain strs where j: "join_keywords kws = Inr strs" using ok by auto
    let ?s4 = "send_log cid Info (Fmt ''Filtering pages by keywords: {}'' [Strs strs]) ?s3"
    have f: "fst (poll_interrupt e cid ?s4)" using fl by (intro poll_requested) simp
    let ?S = "send_log cid Warning (Fmt ''Filtering interrupted after checking {} pages'' [Num (int 0)])
                (snd (poll_interrupt e cid ?s4))"
    have "extraction_body e u pid cid limit kws im s = (None, handle_interruption e cid pid ?S)"
      using False a sp f j
      by (simp add: extraction_body_def split_beta select_pages_def cand filter_loop_Cons)
    moreover have "active_extractions ?S cid \<noteq> None" using registered_after_poll [OF f] by simp
    ultimately show ?thesis using False by (intro exI [of _ ?S]) (simp add: process_sitemap_fields)
  qed
  then obtain S where S: "extraction_body e u pid cid limit kws im s = (None, handle_interruption e cid pid S)"
      "active_extractions S cid \<noteq> None" "has_queue cid S = has_queue cid s"
      "completions cid S = completions cid s" "consumers S = consumers s"
      "pages_scraped (processing_status S) = pages_scraped (processing_status s)"
      "requests S = requests s @ [RobotsReq u, SitemapReq u] @ (if kws = [] then [ScrapeReq p] else [])"
      "kws \<noteq> [] \<longrightarrow> scraped_pages S = scraped_pages s"
    by blast
  show "fst (extraction_body e u pid cid limit kws im s) = None" by (simp add: S)
  show "extraction_status (processing_status (snd (extraction_body e u pid cid limit kws im s)))
           = STATUS_INTERRUPTED"
    by (simp add: S handle_interruption_status)
  show "pages_scraped (processing_status (snd (extraction_body e u pid cid limit kws im s)))
           = pages_scraped (processing_status s)"
    by (simp add: S handle_interruption_status)
  show "consumer_exits e = None \<Longrightarrow> has_queue cid s \<Longrightarrow>
         kinds cid (snd (extraction_body e u pid cid limit kws im s)) \<noteq> [] \<and>
         last (kinds cid (snd (extraction_body e u pid cid limit kws im s))) = Completion"
    by (simp add: S handle_interruption_queue)
  show "consumer_exits e = None \<Longrightarrow>
         completions cid (snd (extraction_body e u pid cid limit kws im s))
           = completions cid s + (if has_queue cid s then 1 else 0)"
    by (simp add: S completions_handle_interruption)
  show "requests (snd (extraction_body e u pid cid limit kws im s))
           = requests s @ [RobotsReq u, SitemapReq u]
               @ (if kws = [] then [ScrapeReq (case sitemap e u of Inr (p # ps) \<Rightarrow> p | _ \<Rightarrow> u)] else [])"
    by (simp add: S hd)
  show "kws \<noteq> [] \<Longrightarrow> scraped_pages (snd (extraction_body e u pid cid limit kws im s)) = scraped_pages s"
    by (simp add: S)
  show "consumer_exits e = Some ov \<Longrightarrow> cid \<in> set (consumers s) \<Longrightarrow>
         \<not> has_queue cid (snd (extraction_body e u pid cid limit kws im s))"
    using handle_interruption_overtaken(1) [OF S(2), of e ov pid] by (simp add: S)
qed

text \<open>
  The messages of such a job. When the consumer stays until \<open>handle_interruption\<close> has
  returned, the completion message is queued last, and it is the only one of the run. When
  the consumer leaves inside \<open>handle_interruption\<close>, the queue is gone at the end and the
  completion message was not queued.
\<close>

lemma interrupted_early_messages:
  assumes "should_interrupt cid (active_extractions sys)
             \<or> (interrupt_at e = Some (checks sys) \<and> active_extractions sys cid \<noteq> None)"
      and "1 \<le> limit"
      and "kws = [] \<or> (\<exists>strs. join_keywords kws = Inr strs)"
  shows "consumer_exits e = None \<Longrightarrow> has_queue cid sys \<Longrightarrow>
         last (kinds cid (run_extraction_thread e u pid cid email mode limit kws im sys)) = Completion
         \<and> completions cid (run_extraction_thread e u pid cid email mode limit kws im sys)
             = completions cid sys + 1"
    and "consumer_exits e = Some ov \<Longrightarrow> cid \<in> set (consumers sys) \<Longrightarrow>
         \<not> has_queue cid (run_extraction_thread e u pid cid email mode limit kws im sys)
         \<and> completions cid (run_extraction_thread e u pid cid email mode limit kws im sys) = 0"
proof -
  let ?s = "start_worker sys (initial_status (clock sys) mode limit kws im None)"
  have fl: "should_interrupt cid (active_extractions ?s)
              \<or> (interrupt_at e = Some (checks ?s) \<and> active_extractions ?s cid \<noteq> None)"
    using assms(1) by simp
  note L = extraction_body_interrupted_early [where u = u and pid = pid and im = im, OF fl assms(2) assms(3)]
  have R: "run_extraction_thread e u pid cid email mode limit kws im sys
             = snd (extraction_body e u pid cid limit kws im ?s)"
    using L(1) by (simp add: run_extraction_thread_def split_beta)
  show "consumer_exits e = None \<Longrightarrow> has_queue cid sys \<Longrightarrow>
         last (kinds cid (run_extraction_thread e u pid cid email mode limit kws im sys)) = Completion
         \<and> completions cid (run_extraction_thread e u pid cid email mode limit kws im sys)
             = completions cid sys + 1"
    unfolding R using L(4) L(5) by simp
  show "consumer_exits e = Some ov \<Longrightarrow> cid \<in> set (consumers sys) \<Longrightarrow>
         \<not> has_queue cid (run_extraction_thread e u pid cid email mode limit kws im sys)
         \<and> completions cid (run_extraction_thread e u pid cid email mode limit kws im sys) = 0"
    unfolding R using L(8) [where ov = ov] by (simp add: no_queue_no_kinds)
qed

lemma interrupted_early_fields:
  "should_interrupt ''job1'' (active_extractions (interrupted_early kws))"
  "active_extractions (interrupted_early kws) ''job1'' \<noteq> None"
  "has_queue ''job1'' (interrupted_early kws)"
  "kinds ''job1'' (interrupted_early kws) = []"
  "completions ''job1'' (interrupted_early kws) = 0"
  "requests (interrupted_early kws) = []"
  "checks (interrupted_early kws) = 0"
  "consumers (interrupted_early kws) = [''job1'']"
  by (simp_all add: interrupted_early_def interrupt_extraction_def should_interrupt_def submitted_fields
        completions_def has_queue_def kinds_def)

lemma site_interrupting_fields:
  "robots site_interrupting = (\<lambda>u. Inr True)"
  "sitemap site_interrupting = (\<lambda>u. Inr [''http://x.org/a'', ''http://x.org/b''])"
  "scrape_website site_interrupting = (\<lambda>u. Inr (page_of u))"
  "store_in_mongodb site_interrupting x = None"
  "db_up site_interrupting"
  "interrupt_at site_interrupting = Some 0"
  by (simp_all add: site_interrupting_def site_def)

subsection \<open>Messages of a failed job\<close>

text \<open>
  C1. A job whose keyword list holds a value that is not a string fails at the \<open>join\<close> of
  line 382 and ends in state \<open>error\<close>, in the status and in the registry. Its queue then
  holds the start message and the error message of line 641, and no completion message:
  the handler of line 637 queues none, unlike the two other ends of a job.
\<close>

theorem error_path_no_completion:
  "kinds ''job1'' (run_extraction_thread site ''http://x.org'' ''p1'' ''job1'' ''ann@x.org''
       ''limited'' 5 [PyInt 42] True (submitted [PyInt 42])) = [Info, Error]
   \<and> completions ''job1'' (run_extraction_thread site ''http://x.org'' ''p1'' ''job1'' ''ann@x.org''
       ''limited'' 5 [PyInt 42] True (submitted [PyInt 42])) = 0
   \<and> extraction_status (processing_status (run_extraction_thread site ''http://x.org'' ''p1''
       ''job1'' ''ann@x.org'' ''limited'' 5 [PyInt 42] True (submitted [PyInt 42]))) = STATUS_ERROR
   \<and> map_option status (active_extractions (run_extraction_thread site ''http://x.org'' ''p1''
       ''job1'' ''ann@x.org'' ''limited'' 5 [PyInt 42] True (submitted [PyInt 42])) ''job1'')
       = Some STATUS_ERROR"
  by (simp add: run_extraction_thread_def extraction_body_def announce_def join_keywords_def
        error_handler_queue error_handler_status error_handler_registry submitted_fields completions_def)

subsection \<open>Interruption\<close>




text \<open>
  The messages of the job of the counterexample above: with a consumer that stays, the
  completion message is the last one queued; with a consumer that leaves while the worker
  writes to the database, no completion message is queued.
\<close>

lemma interrupted_early_messages_example:
  "last (kinds ''job1'' (run_extraction_thread site ''http://x.org'' ''p1'' ''job1'' ''ann@x.org''
        ''limited'' 5 [] True (interrupted_early []))) = Completion
   \<and> completions ''job1'' (run_extraction_thread site ''http://x.org'' ''p1'' ''job1'' ''ann@x.org''
        ''limited'' 5 [] True (interrupted_early [])) = 1
   \<and> \<not> has_queue ''job1'' (run_extraction_thread (site\<lparr>consumer_exits := Some Before_warning\<rparr>)
        ''http://x.org'' ''p1'' ''job1'' ''ann@x.org'' ''limited'' 5 [] True (interrupted_early []))
   \<and> completions ''job1'' (run_extraction_thread (site\<lparr>consumer_exits := Some Before_warning\<rparr>)
        ''http://x.org'' ''p1'' ''job1'' ''ann@x.org'' ''limited'' 5 [] True (interrupted_early [])) = 0"
  using interrupted_early_messages(1) [where cid = "''job1''" and sys = "interrupted_early []"
          and e = site and limit = 5 and kws = "[]" and u = "''http://x.org''" and pid = "''p1''"
          and email = "''ann@x.org''" and mode = "''limited''" and im = True]
        interrupted_early_messages(2) [where cid = "''job1''" and sys = "interrupted_early []"
          and e = "site\<lparr>consumer_exits := Some Before_warning\<rparr>" and limit = 5 and kws = "[]"
          and u = "''http://x.org''" and pid = "''p1''" and email = "''ann@x.org''"
          and mode = "''limited''" and im = True and ov = Before_warning]
  by (simp add: interrupted_early_fields site_fields)

subsection \<open>What an interrupted job leaves in the store\<close>

text \<open>
  C5. A job interrupted after its first page was scraped and stored: the worker's
  \<open>scraped_pages\<close> holds the page, but the stored project still has an empty
  \<open>scraped_pages\<close> list and \<open>pages_scraped = 0\<close>. \<open>handle_interruption\<close> writes the
  status dictionary only, whose \<open>pages_scraped\<close> is assigned at line 590, on completion.
\<close>

theorem interrupted_job_loses_scraped_pages:
  "extraction_status (processing_status (run_extraction_thread site_interrupting ''http://x.org''
       ''p1'' ''job1'' ''ann@x.org'' ''limited'' 5 [] True (submitted []))) = STATUS_INTERRUPTED
   \<and> scraped_pages (run_extraction_thread site_interrupting ''http://x.org''
       ''p1'' ''job1'' ''ann@x.org'' ''limited'' 5 [] True (submitted [])) = [''http://x.org/a'']
   \<and> length (pages_db (run_extraction_thread site_interrupting ''http://x.org''
       ''p1'' ''job1'' ''ann@x.org'' ''limited'' 5 [] True (submitted []))) = 1
   \<and> map_option site_scraped_pages (projects (run_extraction_thread site_interrupting ''http://x.org''
       ''p1'' ''job1'' ''ann@x.org'' ''limited'' 5 [] True (submitted [])) ''p1'') = Some []
   \<and> map_option (pages_scraped \<circ> stored_status) (projects (run_extraction_thread site_interrupting
       ''http://x.org'' ''p1'' ''job1'' ''ann@x.org'' ''limited'' 5 [] True (submitted [])) ''p1'')
       = Some 0
   \<and> map_option (extraction_status \<circ> stored_status) (projects (run_extraction_thread site_interrupting
       ''http://x.org'' ''p1'' ''job1'' ''ann@x.org'' ''limited'' 5 [] True (submitted [])) ''p1'')
       = Some STATUS_INTERRUPTED"
  by (simp add: run_extraction_thread_def extraction_body_def select_pages_def announce_def
        split_beta process_sitemap_fst py_take_def scrape_loop_Cons site_interrupting_fields
        poll_interrupt_fst submitted_fields poll_interrupt_registered handle_interruption_status
        handle_interruption_project initial_status_def process_sitemap_fields
        scrape_page_ok [OF site_interrupting_fields(3) [THEN fun_cong] site_interrupting_fields(4)])

subsection \<open>The keyword filter without interruption\<close>

lemma failed_fetch_check:
  "fetch_page e p = Inl err \<Longrightarrow> check_page_for_keywords e p kws im = (False, [], empty_meta, [])"
  by (simp add: check_page_for_keywords_def)

lemma filter_loop_continue:
  "filter_loop e cid pid kws im n i pages s = (Continue, s') \<Longrightarrow>
     filtered_pages s' = filtered_pages s @ filter (\<lambda>p. fst (check_page_for_keywords e p kws im)) pages
   \<and> pages_with_keywords s' = pages_with_keywords s
        + length (filter (\<lambda>p. fst (check_page_for_keywords e p kws im)) pages)
   \<and> pages_checked s' = pages_checked s + length pages
   \<and> requests s' = requests s @ map KeywordGet pages
   \<and> projects s' = projects s \<and> pages_db s' = pages_db s
   \<and> processing_status s' = processing_status s \<and> status_trace s' = status_trace s
   \<and> scraped_pages s' = scraped_pages s"
proof (induction pages arbitrary: s i)
  case Nil
  then show ?case by simp
next
  case (Cons p rest)
  let ?s1 = "check_page e cid kws im n p (snd (poll_interrupt e cid s))"
  from Cons.prems have np: "\<not> fst (poll_interrupt e cid s)"
    by (auto simp: filter_loop_Cons split: if_splits)
  with Cons.prems have "filter_loop e cid pid kws im n (Suc i) rest ?s1 = (Continue, s')"
    by (simp add: filter_loop_Cons)
  from Cons.IH [OF this] show ?case by (simp add: check_page_adds)
qed

lemma keyword_summary_no_match:
  assumes "pages_with_keywords s = 0"
  shows "keyword_search_results (processing_status (keyword_summary e cid pid kws s)) = Some ''no_matches''"
    and "ps_pages_checked (processing_status (keyword_summary e cid pid kws s)) = Some (pages_checked s)"
    and "db_up e \<Longrightarrow> map_option (keyword_search_results \<circ> stored_status)
           (projects (keyword_summary e cid pid kws s) pid) = map_option (\<lambda>_. Some ''no_matches'') (projects s pid)"
    and "db_up e \<Longrightarrow> map_option (ps_pages_checked \<circ> stored_status)
           (projects (keyword_summary e cid pid kws s) pid) = map_option (\<lambda>_. Some (pages_checked s)) (projects s pid)"
  using assms
  by (auto simp: keyword_summary_def Let_def set_status_def update_project_partial_sync_def
        split: option.splits)

lemma choose_pages_keeps:
  "keyword_search_results (processing_status (snd (choose_pages cid limit sp s)))
     = keyword_search_results (processing_status s)"
  "ps_pages_checked (processing_status (snd (choose_pages cid limit sp s))) = Some (pages_checked s)"
  by (simp_all add: choose_pages_def Let_def set_status_def)

lemma finish_keeps:
  "keyword_search_results (processing_status (finish e cid pid kws s))
     = keyword_search_results (processing_status s)"
  by (simp add: finish_def Let_def set_status_def)

lemma py_take_min: "1 \<le> limit \<Longrightarrow> py_take (min limit (int (length xs))) xs = take (nat limit) xs"
  by (auto simp: py_take_def min_def)

subsection \<open>The keyword filter\<close>

lemma check_page_a: "fst (check_page_for_keywords site ''http://x.org/a'' [PyStr ''foo''] True)"
  by code_simp

lemma check_page_b:
  "check_page_for_keywords site ''http://x.org/b'' [PyStr ''foo''] True = (False, [], empty_meta, [])"
  by (simp add: failed_fetch_check site_fields)

lemma check_page_none: "\<not> fst (check_page_for_keywords no_sitemap ''http://x.org'' [PyStr ''foo''] True)"
  by code_simp

lemma failed_check_not_selected:
  assumes "filter_loop e cid pid kws im n i pages s = (Continue, s')" and "fetch_page e p = Inl err"
  shows "filtered_pages s' = filtered_pages s @ filter (\<lambda>p. fst (check_page_for_keywords e p kws im)) pages"
    and "p \<notin> set (filter (\<lambda>p. fst (check_page_for_keywords e p kws im)) pages)"
  using filter_loop_continue [OF assms(1)] failed_fetch_check [OF assms(2)] by simp_all

text \<open>
  C3. The sitemap lists \<open>/a\<close> and \<open>/b\<close>; \<open>/a\<close> contains the keyword, the request for
  \<open>/b\<close> fails inside \<open>check_page_for_keywords\<close>, which returns
  \<open>(False, [], {}, {})\<close>. The caller takes that for a page without keywords: \<open>/b\<close> is
  left out of \<open>filtered_pages\<close>, and only \<open>/a\<close> is scraped. The handler that would keep
  the page (lines 481-486) is never entered.
\<close>

theorem failed_check_drops_page:
  "fetch_page site ''http://x.org/b'' = Inl ''timed out''
   \<and> check_page_for_keywords site ''http://x.org/b'' [PyStr ''foo''] True = (False, [], empty_meta, [])
   \<and> filtered_pages (run_extraction_thread site ''http://x.org'' ''p1'' ''job1'' ''ann@x.org''
        ''limited'' 5 [PyStr ''foo''] True (submitted [PyStr ''foo''])) = [''http://x.org/a'']
   \<and> requests (run_extraction_thread site ''http://x.org'' ''p1'' ''job1'' ''ann@x.org''
        ''limited'' 5 [PyStr ''foo''] True (submitted [PyStr ''foo'']))
       = [RobotsReq ''http://x.org'', SitemapReq ''http://x.org'',
          KeywordGet ''http://x.org/a'', KeywordGet ''http://x.org/b'', ScrapeReq ''http://x.org/a'']
   \<and> scraped_pages (run_extraction_thread site ''http://x.org'' ''p1'' ''job1'' ''ann@x.org''
        ''limited'' 5 [PyStr ''foo''] True (submitted [PyStr ''foo''])) = [''http://x.org/a'']
   \<and> extraction_status (processing_status (run_extraction_thread site ''http://x.org'' ''p1''
        ''job1'' ''ann@x.org'' ''limited'' 5 [PyStr ''foo''] True (submitted [PyStr ''foo''])))
       = STATUS_COMPLETED"
  by (simp add: run_simps site_fields join_keywords_def filter_loop_Cons check_page_adds
        check_page_a check_page_b choose_pages_fst
        scrape_page_ok [OF site_fields(4) [THEN fun_cong] site_fields(5)])

text \<open>
  C8, as stated, fails where the sitemap gave no pages: \<open>pages_found\<close> is 0, the keyword
  is on no page, and the worker still processes one page, the target URL, not the first
  \<open>min(pages_limit, pages_found) = 0\<close> pages.
\<close>

theorem fallback_not_bounded_by_pages_found_counterexample:
  "pages_found (processing_status (run_extraction_thread no_sitemap ''http://x.org'' ''p1''
        ''job1'' ''ann@x.org'' ''limited'' 5 [PyStr ''foo''] True (submitted [PyStr ''foo'']))) = 0
   \<and> pages_with_keywords (run_extraction_thread no_sitemap ''http://x.org'' ''p1''
        ''job1'' ''ann@x.org'' ''limited'' 5 [PyStr ''foo''] True (submitted [PyStr ''foo''])) = 0
   \<and> keyword_search_results (processing_status (run_extraction_thread no_sitemap ''http://x.org''
        ''p1'' ''job1'' ''ann@x.org'' ''limited'' 5 [PyStr ''foo''] True (submitted [PyStr ''foo''])))
       = Some ''no_matches''
   \<and> scraped_pages (run_extraction_thread no_sitemap ''http://x.org'' ''p1''
        ''job1'' ''ann@x.org'' ''limited'' 5 [PyStr ''foo''] True (submitted [PyStr ''foo'']))
       = [''http://x.org'']
   \<and> requests (run_extraction_thread no_sitemap ''http://x.org'' ''p1''
        ''job1'' ''ann@x.org'' ''limited'' 5 [PyStr ''foo''] True (submitted [PyStr ''foo'']))
       = [RobotsReq ''http://x.org'', SitemapReq ''http://x.org'',
          KeywordGet ''http://x.org'', ScrapeReq ''http://x.org'']"
  by (simp add: run_simps no_sitemap_fields join_keywords_def filter_loop_Cons check_page_adds
        check_page_none choose_pages_fst choose_pages_keeps finish_keeps keyword_summary_no_match
        scrape_page_ok [OF no_sitemap_fields(4) [THEN fun_cong] no_sitemap_fields(5)])

text \<open>
  C8, amended. When keywords are configured, the filter is not interrupted and no checked
  page matches, the pages then processed are \<open>sitemap_pages[:min(pages_limit, n)]\<close> where
  \<open>n\<close> is the number of candidate pages (the pages of the sitemap, or the target URL alone
  when the sitemap gave none; \<open>n = pages_found\<close> when \<open>sitemap_status = success\<close>).
  \<open>keyword_search_results = no_matches\<close> and \<open>pages_checked\<close> are in the status and,
  the database being reachable, in the stored project, and up to then nothing was scraped:
  the requests made are those of the sitemap and of the keyword checks.
\<close>

theorem no_match_fallback:
  assumes "kws \<noteq> []"
      and "filtered_pages s0 = []" and "pages_with_keywords s0 = 0" and "pages_checked s0 = 0"
      and "process_sitemap e cid u s0 = (sitemap_pages, s)"
      and "select_pages e cid pid limit kws im sitemap_pages s = (Pages pages, s')"
      and "pages_with_keywords s' = 0"
  shows "pages = py_take (min limit (int (length sitemap_pages))) sitemap_pages
     \<and> (1 \<le> limit \<longrightarrow> pages = take (nat limit) sitemap_pages)
     \<and> (sitemap_status (processing_status s') = ''success''
           \<longrightarrow> pages_found (processing_status s') = length sitemap_pages)
     \<and> keyword_search_results (processing_status s') = Some ''no_matches''
     \<and> ps_pages_checked (processing_status s') = Some (length (py_take limit sitemap_pages))
     \<and> (db_up e \<longrightarrow>
           map_option (keyword_search_results \<circ> stored_status) (projects s' pid)
             = map_option (\<lambda>_. Some ''no_matches'') (projects s0 pid)
         \<and> map_option (ps_pages_checked \<circ> stored_status) (projects s' pid)
             = map_option (\<lambda>_. Some (length (py_take limit sitemap_pages))) (projects s0 pid))
     \<and> pages_db s' = pages_db s0 \<and> scraped_pages s' = scraped_pages s0
     \<and> requests s' = requests s0 @ [SitemapReq u] @ map KeywordGet (py_take limit sitemap_pages)"
proof -
  have s: "s = snd (process_sitemap e cid u s0)" and sp: "sitemap_pages = fst (process_sitemap e cid u s0)"
    using assms(5) by simp_all
  obtain strs where j: "join_keywords kws = Inr strs"
    using assms(1,6) by (cases "join_keywords kws") (simp_all add: select_pages_def)
  let ?c = "py_take limit sitemap_pages"
  let ?s1 = "send_log cid Info (Fmt ''Filtering pages by keywords: {}'' [Strs strs]) s"
  obtain fl s2 where L: "filter_loop e cid pid kws im (length ?c) 0 ?c ?s1 = (fl, s2)"
    by (cases "filter_loop e cid pid kws im (length ?c) 0 ?c ?s1")
  have fl: "fl = Continue"
    using assms(1,6) j L by (cases fl) (simp_all add: select_pages_def Let_def)
  let ?s3 = "keyword_summary e cid pid kws s2"
  have res: "pages = fst (choose_pages cid limit sitemap_pages ?s3)"
            "s' = snd (choose_pages cid limit sitemap_pages ?s3)"
    using assms(1,6) j L fl by (simp_all add: select_pages_def Let_def split_beta)
  note C = filter_loop_continue [OF L [unfolded fl]]
  have w2: "pages_with_keywords s2 = 0" using assms(7) by (simp add: res)
  then have none: "filter (\<lambda>p. fst (check_page_for_keywords e p kws im)) ?c = []"
    using C by simp
  have f2: "filtered_pages s2 = []" using C none assms(2) by (simp add: s)
  have c2: "pages_checked s2 = length ?c" using C assms(4) by (simp add: s)
  have p: "pages = py_take (min limit (int (length sitemap_pages))) sitemap_pages"
    using f2 by (simp add: res choose_pages_fst)
  have found: "sitemap_status (processing_status s') = ''success''
                 \<longrightarrow> pages_found (processing_status s') = length sitemap_pages"
    using C by (auto simp: res s sp process_sitemap_fields process_sitemap_fst split: sum.splits list.splits)
  have st: "keyword_search_results (processing_status s') = Some ''no_matches''"
           "ps_pages_checked (processing_status s') = Some (length ?c)"
    using w2 c2 by (simp_all add: res choose_pages_keeps keyword_summary_no_match)
  have db: "db_up e \<longrightarrow>
           map_option (keyword_search_results \<circ> stored_status) (projects s' pid)
             = map_option (\<lambda>_. Some ''no_matches'') (projects s0 pid)
         \<and> map_option (ps_pages_checked \<circ> stored_status) (projects s' pid)
             = map_option (\<lambda>_. Some (length ?c)) (projects s0 pid)"
    using w2 c2 C by (simp add: res keyword_summary_no_match s)
  have rest: "pages_db s' = pages_db s0" "scraped_pages s' = scraped_pages s0"
             "requests s' = requests s0 @ [SitemapReq u] @ map KeywordGet ?c"
    using C by (simp_all add: res s)
  show ?thesis using p st found db rest by (simp add: py_take_min)
qed

theorem no_match_fallback_witness:
  "[PyStr ''foo''] \<noteq> []
   \<and> fst (select_pages no_sitemap ''job1'' ''p1'' 5 [PyStr ''foo''] True
        (fst (process_sitemap no_sitemap ''job1'' ''http://x.org''
               (start_worker (submitted [PyStr ''foo'']) (initial_status 0 ''limited'' 5 [PyStr ''foo''] True None))))
        (snd (process_sitemap no_sitemap ''job1'' ''http://x.org''
               (start_worker (submitted [PyStr ''foo'']) (initial_status 0 ''limited'' 5 [PyStr ''foo''] True None)))))
       = Pages [''http://x.org'']
   \<and> pages_with_keywords (snd (select_pages no_sitemap ''job1'' ''p1'' 5 [PyStr ''foo''] True
        (fst (process_sitemap no_sitemap ''job1'' ''http://x.org''
               (start_worker (submitted [PyStr ''foo'']) (initial_status 0 ''limited'' 5 [PyStr ''foo''] True None))))
        (snd (process_sitemap no_sitemap ''job1'' ''http://x.org''
               (start_worker (submitted [PyStr ''foo'']) (initial_status 0 ''limited'' 5 [PyStr ''foo''] True None)))))) = 0
   \<and> keyword_search_results (processing_status (snd (select_pages no_sitemap ''job1'' ''p1'' 5 [PyStr ''foo''] True
        (fst (process_sitemap no_sitemap ''job1'' ''http://x.org''
               (start_worker (submitted [PyStr ''foo'']) (initial_status 0 ''limited'' 5 [PyStr ''foo''] True None))))
        (snd (process_sitemap no_sitemap ''job1'' ''http://x.org''
               (start_worker (submitted [PyStr ''foo'']) (initial_status 0 ''limited'' 5 [PyStr ''foo''] True None)))))))
       = Some ''no_matches''
   \<and> map_option (keyword_search_results \<circ> stored_status)
        (projects (snd (select_pages no_sitemap ''job1'' ''p1'' 5 [PyStr ''foo''] True
        (fst (process_sitemap no_sitemap ''job1'' ''http://x.org''
               (start_worker (submitted [PyStr ''foo'']) (initial_status 0 ''limited'' 5 [PyStr ''foo''] True None))))
        (snd (process_sitemap no_sitemap ''job1'' ''http://x.org''
               (start_worker (submitted [PyStr ''foo'']) (initial_status 0 ''limited'' 5 [PyStr ''foo''] True None)))))) ''p1'')
       = Some (Some ''no_matches'')"
proof -
  let ?init = "start_worker (submitted [PyStr ''foo'']) (initial_status 0 ''limited'' 5 [PyStr ''foo''] True None)"
  let ?cands = "fst (process_sitemap no_sitemap ''job1'' ''http://x.org'' ?init)"
  let ?mid = "snd (process_sitemap no_sitemap ''job1'' ''http://x.org'' ?init)"
  let ?r = "select_pages no_sitemap ''job1'' ''p1'' 5 [PyStr ''foo''] True ?cands ?mid"
  have sel: "fst ?r = Pages [''http://x.org'']" and none: "pages_with_keywords (snd ?r) = 0"
    by (simp_all add: select_pages_def Let_def split_beta process_sitemap_fst no_sitemap_fields join_keywords_def
          py_take_def filter_loop_Cons poll_quiet should_interrupt_def submitted_fields check_page_adds
          check_page_none choose_pages_fst)
  have r: "?r = (Pages [''http://x.org''], snd ?r)" using sel by (cases ?r) simp
  have ps: "process_sitemap no_sitemap ''job1'' ''http://x.org'' ?init = (?cands, ?mid)" by simp
  have z: "\<exists>z. projects ?init ''p1'' = Some z" by (simp add: submitted_fields)
  have fresh: "filtered_pages ?init = []" "pages_with_keywords ?init = 0" "pages_checked ?init = 0" by simp_all
  have k: "[PyStr ''foo''] \<noteq> []" by simp
  show ?thesis
    using sel none z no_match_fallback [OF k fresh ps r none]
    by (auto simp: no_sitemap_fields)
qed

end
